theory Spec2Isabelle
  imports Main
begin

section \<open>Strings as the search module uses them\<close>

text \<open>
  The search module (\<^verbatim>\<open>search.ts\<close>) works on JavaScript strings. They are modelled as
  \<open>string\<close> (a list of characters, one per code unit). Only four string operations of
  the runtime are used by the code under study: \<^verbatim>\<open>startsWith\<close>, \<^verbatim>\<open>includes\<close>,
  \<^verbatim>\<open>replace\<close> with a string pattern (which substitutes the first occurrence only)
  and \<^verbatim>\<open>trim\<close>.
\<close>

definition startsWith :: "string \<Rightarrow> string \<Rightarrow> bool" where
  "startsWith s p = (take (length p) s = p)"

text \<open>\<^verbatim>\<open>s.includes(p)\<close>: \<open>p\<close> occurs in \<open>s\<close> as a contiguous substring.\<close>

fun str_includes :: "string \<Rightarrow> string \<Rightarrow> bool" where
  "str_includes [] p = (p = [])"
| "str_includes (c # cs) p = (startsWith (c # cs) p \<or> str_includes cs p)"

text \<open>
  \<^verbatim>\<open>s.replace(pat, rep)\<close> with a string pattern: the first occurrence of \<open>pat\<close>,
  scanning from the left, is replaced; a string without an occurrence is returned as it
  is. (The replacement strings of the module contain no \<^verbatim>\<open>$\<close> pattern.)
\<close>

fun str_replace :: "string \<Rightarrow> string \<Rightarrow> string \<Rightarrow> string" where
  "str_replace [] pat rep = (if pat = [] then rep else [])"
| "str_replace (c # cs) pat rep =
     (if startsWith (c # cs) pat then rep @ drop (length pat) (c # cs)
      else c # str_replace cs pat rep)"

text \<open>
  \<^verbatim>\<open>s.trim()\<close> removes white space and line terminators at both ends. Of these the
  model has the ones below 256: tab, line feed, vertical tab, form feed, carriage
  return, space and the no-break space.
\<close>

definition isWhiteSpace :: "char \<Rightarrow> bool" where
  "isWhiteSpace c =
     (c \<in> set [CHR 0x09, CHR 0x0A, CHR 0x0B, CHR 0x0C, CHR 0x0D, CHR 0x20, CHR 0xA0])"

definition str_trim :: "string \<Rightarrow> string" where
  "str_trim s = rev (dropWhile isWhiteSpace (rev (dropWhile isWhiteSpace s)))"


section \<open>Fingerprint side file\<close>

text \<open>
  \<^verbatim>\<open>const fingerprintFile = stateFile.replace(".json", "-fingerprint.json");\<close>
  (the same line in \<^verbatim>\<open>googleSearch\<close> and in \<^verbatim>\<open>getGoogleSearchPageHtml\<close>).
\<close>

definition fingerprintFile :: "string \<Rightarrow> string" where
  "fingerprintFile stateFile = str_replace stateFile ''.json'' ''-fingerprint.json''"

text \<open>
  What the interface description asks for, written after its words: the trailing
  \<^verbatim>\<open>.json\<close> of the path is replaced, and nothing else.
\<close>

definition endsWith :: "string \<Rightarrow> string \<Rightarrow> bool" where
  "endsWith s p = (length p \<le> length s \<and> drop (length s - length p) s = p)"

definition fingerprintFile_trailing :: "string \<Rightarrow> string" where
  "fingerprintFile_trailing stateFile =
     (if endsWith stateFile ''.json''
      then take (length stateFile - length ''.json'') stateFile @ ''-fingerprint.json''
      else stateFile)"


section \<open>Block detection\<close>

text \<open>
  The list \<^verbatim>\<open>sorryPatterns\<close> and the three checks that \<^verbatim>\<open>performSearch\<close> makes with
  it. After navigation the check reads the page URL and the URL of the navigation
  response (\<^verbatim>\<open>page.goto\<close> may resolve to \<^verbatim>\<open>null\<close>, here \<open>None\<close>):
  \<^verbatim>\<open>sorryPatterns.some((pattern) => currentUrl.includes(pattern) ||
      (response && response.url().toString().includes(pattern)))\<close>.
  After the query is submitted, and when no results container appeared, the check reads
  the page URL only:
  \<^verbatim>\<open>sorryPatterns.some((pattern) => searchUrl.includes(pattern))\<close>.
\<close>

definition sorryPatterns :: "string list" where
  "sorryPatterns =
     [''google.com/sorry/index'', ''google.com/sorry'', ''recaptcha'', ''captcha'',
      ''unusual traffic'']"

definition isBlockedPage :: "string \<Rightarrow> string option \<Rightarrow> bool" where
  "isBlockedPage currentUrl response =
     list_ex (\<lambda>pattern. str_includes currentUrl pattern \<or>
                (case response of None \<Rightarrow> False
                 | Some responseUrl \<Rightarrow> str_includes responseUrl pattern))
       sorryPatterns"

definition isBlockedAfterSearch :: "string \<Rightarrow> bool" where
  "isBlockedAfterSearch searchUrl =
     list_ex (\<lambda>pattern. str_includes searchUrl pattern) sorryPatterns"

definition isBlockedDuringResults :: "string \<Rightarrow> bool" where
  "isBlockedDuringResults currentUrl =
     list_ex (\<lambda>pattern. str_includes currentUrl pattern) sorryPatterns"

text \<open>
  The headed-mode wait, \<^verbatim>\<open>sorryPatterns.every((pattern) => !urlStr.includes(pattern))\<close>,
  is the predicate handed to \<^verbatim>\<open>page.waitForNavigation\<close>.
\<close>

definition leftSorryPage :: "string \<Rightarrow> bool" where
  "leftSorryPage urlStr = list_all (\<lambda>pattern. \<not> str_includes urlStr pattern) sorryPatterns"


section \<open>Data model\<close>

text \<open>
  \<^verbatim>\<open>FingerprintConfig\<close> and \<^verbatim>\<open>SavedState\<close> of \<^verbatim>\<open>search.ts\<close>, and
  \<^verbatim>\<open>SearchResult\<close>, \<^verbatim>\<open>SearchResponse\<close>, \<^verbatim>\<open>CommandOptions\<close> and \<^verbatim>\<open>HtmlResponse\<close> of
  \<^verbatim>\<open>types.ts\<close>. Optional fields are options. Field names carry a prefix, since
  record fields share one name space (and \<open>locale\<close> is a keyword).
\<close>

datatype colorScheme = Dark | Light
datatype reducedMotion = Reduce | NoPreference
datatype forcedColors = Active | NoForcedColors

record FingerprintConfig =
  fp_deviceName :: string
  fp_locale :: string
  fp_timezoneId :: string
  fp_colorScheme :: colorScheme
  fp_reducedMotion :: reducedMotion
  fp_forcedColors :: forcedColors

record SavedState =
  fingerprint :: "FingerprintConfig option"
  googleDomain :: "string option"

record SearchResult =
  title :: string
  link :: string
  snippet :: string

record SearchResponse =
  query :: string
  results :: "SearchResult list"

record CommandOptions =
  opt_limit :: "int option"
  opt_timeout :: "int option"
  opt_headless :: "bool option"
  opt_stateFile :: "string option"
  opt_noSaveState :: "bool option"
  opt_locale :: "string option"

record HtmlResponse =
  html_query :: string
  html :: string
  html_url :: string
  savedPath :: "string option"
  screenshotPath :: "string option"
  originalHtmlLength :: nat

text \<open>
  A device preset of the automation engine's \<^verbatim>\<open>devices\<close> registry, and the options a
  browsing context is created with: the fields spread from a preset, then the five
  fingerprint fields. (The constant options added afterwards, \<^verbatim>\<open>permissions\<close>,
  \<^verbatim>\<open>acceptDownloads\<close>, \<^verbatim>\<open>isMobile: false\<close>, \<^verbatim>\<open>hasTouch: false\<close>,
  \<^verbatim>\<open>javaScriptEnabled\<close>, are the same on every path and are left out.)
\<close>

record DeviceDescriptor =
  userAgent :: string
  viewportWidth :: nat
  viewportHeight :: nat
  defaultBrowserType :: string

record ContextOptions =
  co_device :: "DeviceDescriptor option"
  co_locale :: string
  co_timezoneId :: string
  co_colorScheme :: colorScheme
  co_reducedMotion :: reducedMotion
  co_forcedColors :: forcedColors

text \<open>
  The host signals read by \<^verbatim>\<open>getHostMachineConfig\<close> and the engine's registry of
  device presets: \<^verbatim>\<open>process.env.LANG\<close>, \<^verbatim>\<open>new Date().getTimezoneOffset()\<close>,
  \<^verbatim>\<open>new Date().getHours()\<close>, \<^verbatim>\<open>os.platform()\<close> and \<^verbatim>\<open>devices\<close>.
\<close>

record Host =
  devices :: "string \<Rightarrow> DeviceDescriptor option"
  env_LANG :: "string option"
  timezoneOffset :: int
  hours :: int
  platform :: string

text \<open>\<^verbatim>\<open>a || b\<close> on an optional string: \<^verbatim>\<open>undefined\<close> and the empty string are falsy.\<close>

definition orElse :: "string option \<Rightarrow> string \<Rightarrow> string" where
  "orElse a b = (case a of None \<Rightarrow> b | Some s \<Rightarrow> if s = [] then b else s)"

definition getHostMachineConfig :: "Host \<Rightarrow> string option \<Rightarrow> FingerprintConfig" where
  "getHostMachineConfig host userLocale =
     (let systemLocale = orElse userLocale (orElse (env_LANG host) ''en-US'');
          off = timezoneOffset host;
          timezoneId =
            (if off \<le> - 480 \<and> off > - 600 then ''Asia/Shanghai''
             else if off \<le> - 540 then ''Asia/Tokyo''
             else if off \<le> - 420 \<and> off > - 480 then ''Asia/Bangkok''
             else if off \<le> 0 \<and> off > - 60 then ''Europe/London''
             else if off \<le> 60 \<and> off > 0 then ''Europe/Berlin''
             else if off \<le> 300 \<and> off > 240 then ''America/New_York''
             else ''America/New_York'');
          colorScheme = (if hours host \<ge> 19 \<or> hours host < 7 then Dark else Light);
          deviceName =
            (if platform host = ''darwin'' then ''Desktop Safari''
             else if platform host = ''win32'' then ''Desktop Edge''
             else if platform host = ''linux'' then ''Desktop Firefox''
             else ''Desktop Chrome'')
      in \<lparr>fp_deviceName = deviceName, fp_locale = systemLocale, fp_timezoneId = timezoneId,
          fp_colorScheme = colorScheme, fp_reducedMotion = NoPreference,
          fp_forcedColors = NoForcedColors\<rparr>)"

definition deviceList :: "string list" where
  "deviceList = [''Desktop Chrome'', ''Desktop Edge'', ''Desktop Firefox'', ''Desktop Safari'']"

definition googleDomains :: "string list" where
  "googleDomains =
     [''https://www.google.com'', ''https://www.google.co.uk'', ''https://www.google.ca'',
      ''https://www.google.com.au'']"


section \<open>The results page as the extractor sees it\<close>

text \<open>
  The extractor passed to \<^verbatim>\<open>page.evaluate\<close> reads the page through DOM queries only.
  Selector matching is the browser's work; the model records what each query of the
  extractor answers.
  \<^item> \<open>TitleElement\<close>: the element found by \<^verbatim>\<open>container.querySelector(selectors.title)\<close>,
    with its \<^verbatim>\<open>textContent\<close>, the \<^verbatim>\<open>href\<close> of an anchor inside it
    (\<^verbatim>\<open>titleElement.querySelector("a")\<close>) and the \<^verbatim>\<open>href\<close> of the nearest anchor
    reached by walking up \<^verbatim>\<open>parentElement\<close> from the title.
  \<^item> \<open>ContainerElement\<close>: a match of a container selector, with the answers to
    \<^verbatim>\<open>querySelector\<close> for a title and for a snippet selector, the \<^verbatim>\<open>href\<close> of its first
    anchor, and its \<^verbatim>\<open>div\<close> descendants in document order, each with "has an
    \<^verbatim>\<open>h3\<close> descendant" and its \<^verbatim>\<open>textContent\<close>.
  \<^item> \<open>AnchorElement\<close>: a match of \<^verbatim>\<open>a[href^='http']\<close>, with the texts of its ancestors,
    nearest first.
\<close>

record TitleElement =
  te_textContent :: string
  te_anchorInside :: "string option"
  te_anchorAbove :: "string option"

record ContainerElement =
  ce_title :: "string \<Rightarrow> TitleElement option"
  ce_text :: "string \<Rightarrow> string option"
  ce_firstAnchor :: "string option"
  ce_divs :: "(bool \<times> string) list"

record AnchorElement =
  ae_isHTMLAnchor :: bool
  ae_href :: string
  ae_textContent :: string
  ae_ancestorTexts :: "string list"

record Document =
  querySelectorAll :: "string \<Rightarrow> ContainerElement list"
  httpAnchors :: "AnchorElement list"

record SelectorSet =
  sel_container :: string
  sel_title :: string
  sel_snippet :: string

definition selectorSets :: "SelectorSet list" where
  "selectorSets =
     [\<lparr>sel_container = ''#search div[data-hveid]'', sel_title = ''h3'',
        sel_snippet = ''.VwiC3b''\<rparr>,
      \<lparr>sel_container = ''#rso div[data-hveid]'', sel_title = ''h3'',
        sel_snippet = ''[data-sncf=\"1\"]''\<rparr>,
      \<lparr>sel_container = ''.g'', sel_title = ''h3'',
        sel_snippet = ''div[style*=\"webkit-line-clamp\"]''\<rparr>,
      \<lparr>sel_container = ''div[jscontroller][data-hveid]'', sel_title = ''h3'',
        sel_snippet = ''div[role=\"text\"]''\<rparr>]"

definition alternativeSnippetSelectors :: "string list" where
  "alternativeSnippetSelectors =
     [''.VwiC3b'', ''[data-sncf=\"1\"]'', ''div[style*=\"webkit-line-clamp\"]'',
      ''div[role=\"text\"]'']"


section \<open>Result extraction\<close>

text \<open>
  The function handed to \<^verbatim>\<open>page.evaluate\<close> in \<^verbatim>\<open>performSearch\<close>. Its two local
  variables, the array \<^verbatim>\<open>results\<close> (here \<open>found\<close>) and the set \<^verbatim>\<open>seenUrls\<close>, are the
  accumulator of the loops below; \<^verbatim>\<open>break\<close> returns the accumulator, \<^verbatim>\<open>continue\<close> goes on with the
  rest of the list. \<^verbatim>\<open>maxResults\<close> is the \<^verbatim>\<open>limit\<close> option, an integer here.
\<close>

type_synonym extraction = "SearchResult list \<times> string set"

text \<open>
  The link of a container: the anchor inside the title, else the nearest anchor above
  the title, else the first anchor of the container, else the empty string.
\<close>

definition findLink :: "ContainerElement \<Rightarrow> TitleElement \<Rightarrow> string" where
  "findLink container titleElement =
     (case te_anchorInside titleElement of
        Some href \<Rightarrow> href
      | None \<Rightarrow>
          (case te_anchorAbove titleElement of
             Some href \<Rightarrow> href
           | None \<Rightarrow> (case ce_firstAnchor container of Some href \<Rightarrow> href | None \<Rightarrow> [])))"

fun firstAlternative :: "ContainerElement \<Rightarrow> string list \<Rightarrow> string" where
  "firstAlternative container [] = []"
| "firstAlternative container (altSelector # rest) =
     (case ce_text container altSelector of
        Some text \<Rightarrow> str_trim text
      | None \<Rightarrow> firstAlternative container rest)"

definition findSnippet :: "SelectorSet \<Rightarrow> ContainerElement \<Rightarrow> string" where
  "findSnippet selectors container =
     (case ce_text container (sel_snippet selectors) of
        Some text \<Rightarrow> str_trim text
      | None \<Rightarrow>
          (let snippet = firstAlternative container alternativeSnippetSelectors
           in if snippet = [] then
                (case filter (\<lambda>(hasH3, text). \<not> hasH3 \<and> length (str_trim text) > 20)
                        (ce_divs container) of
                   [] \<Rightarrow> []
                 | (hasH3, text) # others \<Rightarrow> str_trim text)
              else snippet))"

fun processContainers ::
  "int \<Rightarrow> SelectorSet \<Rightarrow> ContainerElement list \<Rightarrow> extraction \<Rightarrow> extraction" where
  "processContainers maxResults selectors [] (found, seenUrls) = (found, seenUrls)"
| "processContainers maxResults selectors (container # rest) (found, seenUrls) =
     (if int (length found) \<ge> maxResults then (found, seenUrls)
      else
        (case ce_title container (sel_title selectors) of
           None \<Rightarrow> processContainers maxResults selectors rest (found, seenUrls)
         | Some titleElement \<Rightarrow>
             (let title = str_trim (te_textContent titleElement);
                  link = findLink container titleElement
              in if link = [] \<or> \<not> startsWith link ''http'' \<or> link \<in> seenUrls
                 then processContainers maxResults selectors rest (found, seenUrls)
                 else
                   (let snippet = findSnippet selectors container
                    in if title \<noteq> [] \<and> link \<noteq> []
                       then processContainers maxResults selectors rest
                              (found @ [\<lparr>title = title, link = link, snippet = snippet\<rparr>],
                               insert link seenUrls)
                       else processContainers maxResults selectors rest
                              (found, seenUrls)))))"

fun processSelectorSets ::
  "int \<Rightarrow> Document \<Rightarrow> SelectorSet list \<Rightarrow> extraction \<Rightarrow> extraction" where
  "processSelectorSets maxResults doc [] (found, seenUrls) = (found, seenUrls)"
| "processSelectorSets maxResults doc (selectors # rest) (found, seenUrls) =
     (if int (length found) \<ge> maxResults then (found, seenUrls)
      else processSelectorSets maxResults doc rest
             (processContainers maxResults selectors
                (querySelectorAll doc (sel_container selectors)) (found, seenUrls)))"

text \<open>
  The snippet of the supplementary pass: the text of the first of at most three
  ancestors whose trimmed text is longer than 20 and differs from the title.
\<close>

fun nearbyText :: "string \<Rightarrow> string list \<Rightarrow> string" where
  "nearbyText titleText [] = []"
| "nearbyText titleText (parentText # higher) =
     (let text = str_trim parentText
      in if length text > 20 \<and> text \<noteq> titleText then text
         else nearbyText titleText higher)"

fun processAnchors :: "int \<Rightarrow> AnchorElement list \<Rightarrow> extraction \<Rightarrow> extraction" where
  "processAnchors maxResults [] (found, seenUrls) = (found, seenUrls)"
| "processAnchors maxResults (el # rest) (found, seenUrls) =
     (if int (length found) \<ge> maxResults then (found, seenUrls)
      else if \<not> ae_isHTMLAnchor el then processAnchors maxResults rest (found, seenUrls)
      else
        (let link = ae_href el
         in if link = [] \<or> link \<in> seenUrls \<or> str_includes link ''google.com/'' \<or>
               str_includes link ''accounts.google'' \<or> str_includes link ''support.google''
            then processAnchors maxResults rest (found, seenUrls)
            else
              (let title = str_trim (ae_textContent el)
               in if title = [] then processAnchors maxResults rest (found, seenUrls)
                  else
                    (let snippet = nearbyText title (take 3 (ae_ancestorTexts el))
                     in processAnchors maxResults rest
                          (found @ [\<lparr>title = title, link = link, snippet = snippet\<rparr>],
                           insert link seenUrls)))))"

text \<open>\<^verbatim>\<open>xs.slice(0, n)\<close>: a negative \<open>n\<close> counts from the end of the array.\<close>

definition slice0 :: "'a list \<Rightarrow> int \<Rightarrow> 'a list" where
  "slice0 xs n = (if n < 0 then take (length xs - nat (- n)) xs else take (nat n) xs)"

definition extractResults :: "Document \<Rightarrow> int \<Rightarrow> SearchResult list" where
  "extractResults doc maxResults =
     (let (found, seenUrls) = processSelectorSets maxResults doc selectorSets ([], {});
          (found', seenUrls') =
            (if int (length found) < maxResults
             then processAnchors maxResults (httpAnchors doc) (found, seenUrls)
             else (found, seenUrls))
      in slice0 found' maxResults)"


section \<open>The automation engine and the file system as an environment\<close>

text \<open>
  \<^verbatim>\<open>performSearch\<close> is a sequence of calls to the browser automation engine, to
  \<^verbatim>\<open>fs\<close> and to \<^verbatim>\<open>Math.random\<close>. The model does not implement them: each call is an
  \<open>op\<close> that is appended to a trace, and its answer is read from the environment, a
  function from the position of the call in the trace to a \<open>reply\<close>. A reply whose
  field \<open>throws\<close> is \<open>Some m\<close> makes the call throw \<^verbatim>\<open>new Error(m)\<close> (a rejected
  promise, a timeout, a file-system error). The time-outs handed to the engine are
  not part of the ops: their effect is in the replies.

  Handles are named after the position of the call that created them, so every launch
  gives a browser that is different from all others and from the caller's browser,
  which is \<open>Shared\<close>.
\<close>

datatype browser = Shared | Launched nat
datatype browserContext = Context nat
datatype page = Page nat

datatype fileContent = Json SavedState | Text string

datatype op =
    Launch bool
  | NewContext browser ContextOptions "string option"
  | ContextAddInitScript browserContext
  | NewPage browserContext
  | PageAddInitScript page
  | Goto page string
  | PageUrl page
  | PageClose page
  | ContextClose browserContext
  | BrowserClose browser
  | WaitForNavigation page
  | QuerySelector page string
  | Click page
  | KeyboardType page string nat
  | KeyboardPress page string
  | WaitForTimeout page nat
  | WaitForLoadState page
  | WaitForSelector page string
  | Evaluate page int
  | PageContent page
  | Screenshot page string
  | StorageState browserContext string
  | ExistsSync string
  | ReadFileSync string
  | MkdirSync string
  | WriteFileSync string fileContent
  | MathRandom
  | DateNow

record reply =
  throws :: "string option"
  r_url :: string
  r_response :: "string option"
  r_found :: bool
  r_random :: nat
  r_saved :: SavedState
  r_document :: Document
  r_content :: string
  r_timestamp :: string

record world =
  replies :: "nat \<Rightarrow> reply"
  trace :: "op list"
  savedState :: SavedState

text \<open>
  What the module and the engine throw are \<^verbatim>\<open>Error\<close> objects, so the text that the
  \<^verbatim>\<open>catch\<close> blocks take from a caught value
  (\<^verbatim>\<open>error instanceof Error ? error.message : String(error)\<close>) is its message.
\<close>

datatype js_error = Error string

fun message :: "js_error \<Rightarrow> string" where
  "message (Error m) = m"

type_synonym 'a prog = "world \<Rightarrow> (js_error + 'a) \<times> world"

definition return :: "'a \<Rightarrow> 'a prog" where
  "return x = (\<lambda>s. (Inr x, s))"

definition throw :: "js_error \<Rightarrow> 'a prog" where
  "throw e = (\<lambda>s. (Inl e, s))"

definition bind :: "'a prog \<Rightarrow> ('a \<Rightarrow> 'b prog) \<Rightarrow> 'b prog" where
  "bind m f = (\<lambda>s. case m s of (Inl e, s') \<Rightarrow> (Inl e, s') | (Inr x, s') \<Rightarrow> f x s')"

definition tryCatch :: "'a prog \<Rightarrow> (js_error \<Rightarrow> 'a prog) \<Rightarrow> 'a prog" where
  "tryCatch m h = (\<lambda>s. case m s of (Inl e, s') \<Rightarrow> h e s' | (Inr x, s') \<Rightarrow> (Inr x, s'))"

text \<open>
  \<open>perform\<close> is a call that cannot throw (\<^verbatim>\<open>page.url()\<close>, \<^verbatim>\<open>fs.existsSync\<close>,
  \<^verbatim>\<open>Math.random()\<close>, \<^verbatim>\<open>new Date()\<close>); \<open>call\<close> is a call that throws when the
  environment says so.
\<close>

definition perform :: "op \<Rightarrow> reply prog" where
  "perform c = (\<lambda>s. (Inr (replies s (length (trace s))), s\<lparr>trace := trace s @ [c]\<rparr>))"

definition call :: "op \<Rightarrow> reply prog" where
  "call c =
     bind (perform c)
       (\<lambda>r. case throws r of Some m \<Rightarrow> throw (Error m) | None \<Rightarrow> return r)"

definition nextIndex :: "nat prog" where
  "nextIndex = (\<lambda>s. (Inr (length (trace s)), s))"

definition launch :: "bool \<Rightarrow> browser prog" where
  "launch headless =
     bind nextIndex (\<lambda>k. bind (call (Launch headless)) (\<lambda>r. return (Launched k)))"

definition newContext :: "browser \<Rightarrow> ContextOptions \<Rightarrow> string option \<Rightarrow> browserContext prog" where
  "newContext b contextOptions storageState =
     bind nextIndex
       (\<lambda>k. bind (call (NewContext b contextOptions storageState)) (\<lambda>r. return (Context k)))"

definition newPage :: "browserContext \<Rightarrow> page prog" where
  "newPage c = bind nextIndex (\<lambda>k. bind (call (NewPage c)) (\<lambda>r. return (Page k)))"

definition getSavedState :: "SavedState prog" where
  "getSavedState = (\<lambda>s. (Inr (savedState s), s))"

definition setSavedState :: "SavedState \<Rightarrow> unit prog" where
  "setSavedState v = (\<lambda>s. (Inr (), s\<lparr>savedState := v\<rparr>))"

text \<open>\<^verbatim>\<open>Math.floor(Math.random() * n)\<close>: any index below \<open>n\<close>.\<close>

definition randomIndex :: "nat \<Rightarrow> nat prog" where
  "randomIndex n = bind (perform MathRandom) (\<lambda>r. return (r_random r mod n))"

definition getRandomDelay :: "nat \<Rightarrow> nat \<Rightarrow> nat prog" where
  "getRandomDelay lo hi = bind (randomIndex (hi - lo + 1)) (\<lambda>k. return (k + lo))"

text \<open>
  \<^verbatim>\<open>path.dirname\<close> for POSIX paths. It scans the path from its last character down
  to the second one for the first \<^verbatim>\<open>/\<close> that comes after a character other than
  \<^verbatim>\<open>/\<close> (so trailing separators are skipped); \<open>dirnameEnd\<close> is the position of that
  separator. Without one the result is \<^verbatim>\<open>/\<close> for a path that starts with \<^verbatim>\<open>/\<close> and
  \<^verbatim>\<open>.\<close> otherwise; a separator at position 1 of a path that starts with \<^verbatim>\<open>/\<close> gives
  \<^verbatim>\<open>//\<close>.
\<close>

fun dirnameScan :: "string \<Rightarrow> nat \<Rightarrow> bool \<Rightarrow> nat option" where
  "dirnameScan [] i matchedSlash = None"
| "dirnameScan (c # cs) i matchedSlash =
     (if c = CHR ''/'' then (if \<not> matchedSlash then Some i else dirnameScan cs (i - 1) matchedSlash)
      else dirnameScan cs (i - 1) False)"

definition dirnameEnd :: "string \<Rightarrow> nat option" where
  "dirnameEnd p = dirnameScan (rev (tl p)) (length p - 1) True"

definition dirname :: "string \<Rightarrow> string" where
  "dirname p =
     (if p = [] then ''.''
      else (let hasRoot = (hd p = CHR ''/'')
            in case dirnameEnd p of
                 None \<Rightarrow> (if hasRoot then ''/'' else ''.'')
               | Some e \<Rightarrow> if hasRoot \<and> e = 1 then ''//'' else take e p))"


section \<open>Fingerprint resolution\<close>

text \<open>
  \<^verbatim>\<open>getDeviceConfig\<close> and the lines of \<^verbatim>\<open>performSearch\<close> that build
  \<^verbatim>\<open>contextOptions\<close> from the saved fingerprint or from the host
  (\<^verbatim>\<open>const [deviceName, deviceConfig] = getDeviceConfig(); ... savedState.fingerprint =
  hostConfig\<close>). The same lines stand in \<^verbatim>\<open>performSearchAndGetHtml\<close>.
\<close>

definition randomDevice :: "Host \<Rightarrow> (string \<times> DeviceDescriptor option) prog" where
  "randomDevice host =
     bind (randomIndex (length deviceList))
       (\<lambda>i. let randomDevice = deviceList ! i in return (randomDevice, devices host randomDevice))"

definition getDeviceConfig :: "Host \<Rightarrow> (string \<times> DeviceDescriptor option) prog" where
  "getDeviceConfig host =
     bind getSavedState
       (\<lambda>saved. case fingerprint saved of
          None \<Rightarrow> randomDevice host
        | Some fp \<Rightarrow>
            if fp_deviceName fp \<noteq> [] \<and> devices host (fp_deviceName fp) \<noteq> None
            then return (fp_deviceName fp, devices host (fp_deviceName fp))
            else randomDevice host)"

definition buildContextOptions :: "Host \<Rightarrow> string \<Rightarrow> (string \<times> ContextOptions) prog" where
  "buildContextOptions host userLocale =
     bind (getDeviceConfig host) (\<lambda>(deviceName, deviceConfig).
     bind getSavedState (\<lambda>saved.
       case fingerprint saved of
         Some fp \<Rightarrow>
           return (deviceName,
             \<lparr>co_device = deviceConfig, co_locale = fp_locale fp,
              co_timezoneId = fp_timezoneId fp, co_colorScheme = fp_colorScheme fp,
              co_reducedMotion = fp_reducedMotion fp,
              co_forcedColors = fp_forcedColors fp\<rparr>)
       | None \<Rightarrow>
           (let hostConfig = getHostMachineConfig host (Some userLocale);
                base = (if fp_deviceName hostConfig \<noteq> deviceName
                        then devices host (fp_deviceName hostConfig) else deviceConfig)
            in bind (setSavedState (saved\<lparr>fingerprint := Some hostConfig\<rparr>)) (\<lambda>u.
               return (deviceName,
                 \<lparr>co_device = base, co_locale = fp_locale hostConfig,
                  co_timezoneId = fp_timezoneId hostConfig,
                  co_colorScheme = fp_colorScheme hostConfig,
                  co_reducedMotion = fp_reducedMotion hostConfig,
                  co_forcedColors = fp_forcedColors hostConfig\<rparr>)))))"


section \<open>One attempt of \<^verbatim>\<open>performSearch\<close>\<close>

text \<open>
  The variables of \<^verbatim>\<open>googleSearch\<close> that the nested function \<^verbatim>\<open>performSearch\<close>
  reads: the defaulted options, \<^verbatim>\<open>storageState\<close>, \<^verbatim>\<open>fingerprintFile\<close> and the
  parameter \<^verbatim>\<open>existingBrowser\<close>. (\<^verbatim>\<open>savedState\<close>, which it also writes, is in the
  \<open>world\<close>.)
\<close>

record Closure =
  cl_host :: Host
  cl_query :: string
  cl_limit :: int
  cl_stateFile :: string
  cl_noSaveState :: bool
  cl_locale :: string
  cl_storageState :: "string option"
  cl_fingerprintFile :: string
  cl_existingBrowser :: "browser option"

text \<open>
  An attempt ends with a value for the caller, or with \<^verbatim>\<open>return performSearch(false)\<close>.
  The promise of the recursive call is returned, not awaited, so the \<^verbatim>\<open>try\<close> blocks
  around that \<^verbatim>\<open>return\<close> do not catch what the recursive call throws: the attempt
  ends with \<open>Rerun\<close>, and the recursive call is made after it (see \<open>performSearch\<close>).
\<close>

datatype 'a outcome = Return 'a | Rerun

definition searchInputSelectors :: "string list" where
  "searchInputSelectors =
     [''textarea[name='q']'', ''input[name='q']'', ''textarea[title='Search']'',
      ''input[title='Search']'', ''textarea[aria-label='Search']'',
      ''input[aria-label='Search']'', ''textarea'']"

definition searchResultSelectors :: "string list" where
  "searchResultSelectors =
     [''#search'', ''#rso'', ''.g'', ''[data-sokoban-container]'', ''div[role='main']'']"

text \<open>
  The domain to navigate to: \<^verbatim>\<open>savedState.googleDomain\<close> when it is set, else one of
  \<^verbatim>\<open>googleDomains\<close> at random, which is then stored in the saved state.
\<close>

definition selectDomain :: "string prog" where
  "selectDomain =
     bind getSavedState
       (\<lambda>saved. if orElse (googleDomain saved) [] \<noteq> []
                then return (orElse (googleDomain saved) [])
                else bind (randomIndex (length googleDomains)) (\<lambda>i.
                     let selectedDomain = googleDomains ! i
                     in bind (setSavedState (saved\<lparr>googleDomain := Some selectedDomain\<rparr>))
                          (\<lambda>u. return selectedDomain)))"

text \<open>
  The block that \<^verbatim>\<open>performSearch\<close> runs when a check finds a verification page in
  headless mode. It stands three times in the source (after navigation, after the
  query is sent, and when no results container appeared), the same but for its log
  messages.
\<close>

definition restartHeaded ::
  "browser \<Rightarrow> bool \<Rightarrow> ContextOptions \<Rightarrow> browserContext \<Rightarrow> page \<Rightarrow> 'a outcome prog" where
  "restartHeaded b browserWasProvided contextOptions ctx pg =
     bind (call (PageClose pg)) (\<lambda>u.
     bind (call (ContextClose ctx)) (\<lambda>u.
       if browserWasProvided then
         bind (launch False) (\<lambda>newBrowser.
           tryCatch
             (bind (newContext newBrowser contextOptions None) (\<lambda>tempContext.
              bind (newPage tempContext) (\<lambda>tempPage.
              bind (call (BrowserClose newBrowser)) (\<lambda>u. return Rerun))))
             (\<lambda>error. bind (call (BrowserClose newBrowser)) (\<lambda>u. throw error)))
       else bind (call (BrowserClose b)) (\<lambda>u. return Rerun)))"

text \<open>
  The save of the browser state and of the fingerprint file, the same in the \<^verbatim>\<open>try\<close>
  and in the \<^verbatim>\<open>catch\<close> of \<^verbatim>\<open>performSearch\<close>; both of its \<^verbatim>\<open>try\<close> blocks only log.
\<close>

definition saveState :: "Closure \<Rightarrow> browserContext \<Rightarrow> unit prog" where
  "saveState cl ctx =
     tryCatch
       (if \<not> cl_noSaveState cl then
          bind (perform (ExistsSync (dirname (cl_stateFile cl)))) (\<lambda>dirExists.
          bind (if \<not> r_found dirExists
                then bind (call (MkdirSync (dirname (cl_stateFile cl)))) (\<lambda>u. return ())
                else return ()) (\<lambda>u.
          bind (call (StorageState ctx (cl_stateFile cl))) (\<lambda>u.
          bind getSavedState (\<lambda>saved.
            tryCatch
              (bind (call (WriteFileSync (cl_fingerprintFile cl) (Json saved)))
                 (\<lambda>u. return ()))
              (\<lambda>fingerprintError. return ())))))
        else return ())
       (\<lambda>error. return ())"

definition closeUnlessProvided :: "browser \<Rightarrow> bool \<Rightarrow> unit prog" where
  "closeUnlessProvided b browserWasProvided =
     (if \<not> browserWasProvided then bind (call (BrowserClose b)) (\<lambda>u. return ())
      else return ())"

text \<open>The search box: the first selector that \<^verbatim>\<open>page.$\<close> finds.\<close>

fun findSearchInput :: "page \<Rightarrow> string list \<Rightarrow> bool prog" where
  "findSearchInput pg [] = return False"
| "findSearchInput pg (selector # rest) =
     bind (call (QuerySelector pg selector))
       (\<lambda>searchInput. if r_found searchInput then return True
                       else findSearchInput pg rest)"

definition submitQuery :: "Closure \<Rightarrow> page \<Rightarrow> unit prog" where
  "submitQuery cl pg =
     bind (findSearchInput pg searchInputSelectors) (\<lambda>searchInput.
       if \<not> searchInput then throw (Error ''Could not find search box'')
       else
         bind (call (Click pg)) (\<lambda>u.
         bind (getRandomDelay 10 30) (\<lambda>delay.
         bind (call (KeyboardType pg (cl_query cl) delay)) (\<lambda>u.
         bind (getRandomDelay 100 300) (\<lambda>pause.
         bind (call (WaitForTimeout pg pause)) (\<lambda>u.
         bind (call (KeyboardPress pg ''Enter'')) (\<lambda>u.
         bind (call (WaitForLoadState pg)) (\<lambda>u. return ()))))))))"

text \<open>
  The results container: the first selector that \<^verbatim>\<open>page.waitForSelector\<close> does not
  time out on.
\<close>

fun waitForResults :: "page \<Rightarrow> string list \<Rightarrow> bool prog" where
  "waitForResults pg [] = return False"
| "waitForResults pg (selector # rest) =
     tryCatch (bind (call (WaitForSelector pg selector)) (\<lambda>u. return True))
       (\<lambda>e. waitForResults pg rest)"

text \<open>The end of the \<^verbatim>\<open>try\<close> block: extraction, save, close, response.\<close>

definition extractAndReturn ::
  "Closure \<Rightarrow> browser \<Rightarrow> bool \<Rightarrow> browserContext \<Rightarrow> page \<Rightarrow> SearchResponse outcome prog" where
  "extractAndReturn cl b browserWasProvided ctx pg =
     bind (getRandomDelay 200 500) (\<lambda>pause.
     bind (call (WaitForTimeout pg pause)) (\<lambda>u.
     bind (call (Evaluate pg (cl_limit cl))) (\<lambda>evaluated.
     bind (saveState cl ctx) (\<lambda>u.
     bind (closeUnlessProvided b browserWasProvided) (\<lambda>u.
       return (Return \<lparr>query = cl_query cl,
                       results = extractResults (r_document evaluated) (cl_limit cl)\<rparr>))))))"

text \<open>
  The wait for a results container and the third check. The log line before the wait
  reads \<^verbatim>\<open>page.url()\<close> once more.
\<close>

definition awaitResults ::
  "Closure \<Rightarrow> bool \<Rightarrow> browser \<Rightarrow> bool \<Rightarrow> ContextOptions \<Rightarrow> browserContext \<Rightarrow> page \<Rightarrow>
   SearchResponse outcome prog" where
  "awaitResults cl headless b browserWasProvided contextOptions ctx pg =
     bind (perform (PageUrl pg)) (\<lambda>loggedUrl.
     bind (waitForResults pg searchResultSelectors) (\<lambda>resultsFound.
       if \<not> resultsFound then
         bind (perform (PageUrl pg)) (\<lambda>currentUrl.
           if isBlockedDuringResults (r_url currentUrl) then
             (if headless then restartHeaded b browserWasProvided contextOptions ctx pg
              else
                bind (call (WaitForNavigation pg)) (\<lambda>u.
                bind (waitForResults pg searchResultSelectors) (\<lambda>resultsFound'.
                  if \<not> resultsFound'
                  then throw (Error ''Could not find search results element'')
                  else extractAndReturn cl b browserWasProvided ctx pg)))
           else throw (Error ''Could not find search results element''))
       else extractAndReturn cl b browserWasProvided ctx pg))"

text \<open>The query and the second check.\<close>

definition enterQuery ::
  "Closure \<Rightarrow> bool \<Rightarrow> browser \<Rightarrow> bool \<Rightarrow> ContextOptions \<Rightarrow> browserContext \<Rightarrow> page \<Rightarrow>
   SearchResponse outcome prog" where
  "enterQuery cl headless b browserWasProvided contextOptions ctx pg =
     bind (submitQuery cl pg) (\<lambda>u.
     bind (perform (PageUrl pg)) (\<lambda>searchUrl.
       if isBlockedAfterSearch (r_url searchUrl) then
         (if headless then restartHeaded b browserWasProvided contextOptions ctx pg
          else
            bind (call (WaitForNavigation pg)) (\<lambda>u.
            bind (call (WaitForLoadState pg)) (\<lambda>u.
              awaitResults cl headless b browserWasProvided contextOptions ctx pg)))
       else awaitResults cl headless b browserWasProvided contextOptions ctx pg))"

text \<open>The \<^verbatim>\<open>try\<close> block of \<^verbatim>\<open>performSearch\<close>, from the navigation and the first check.\<close>

definition searchTry ::
  "Closure \<Rightarrow> bool \<Rightarrow> browser \<Rightarrow> bool \<Rightarrow> ContextOptions \<Rightarrow> browserContext \<Rightarrow> page \<Rightarrow>
   SearchResponse outcome prog" where
  "searchTry cl headless b browserWasProvided contextOptions ctx pg =
     bind selectDomain (\<lambda>selectedDomain.
     bind (call (Goto pg selectedDomain)) (\<lambda>response.
     bind (perform (PageUrl pg)) (\<lambda>currentUrl.
       if isBlockedPage (r_url currentUrl) (r_response response) then
         (if headless then restartHeaded b browserWasProvided contextOptions ctx pg
          else
            bind (call (WaitForNavigation pg)) (\<lambda>u.
              enterQuery cl headless b browserWasProvided contextOptions ctx pg))
       else enterQuery cl headless b browserWasProvided contextOptions ctx pg)))"

text \<open>The \<^verbatim>\<open>catch\<close> block of \<^verbatim>\<open>performSearch\<close>.\<close>

definition searchCatch ::
  "Closure \<Rightarrow> browser \<Rightarrow> bool \<Rightarrow> browserContext \<Rightarrow> js_error \<Rightarrow> SearchResponse outcome prog" where
  "searchCatch cl b browserWasProvided ctx error =
     bind (saveState cl ctx) (\<lambda>u.
     bind (closeUnlessProvided b browserWasProvided) (\<lambda>u.
       return (Return \<lparr>query = cl_query cl,
                       results =
                         [\<lparr>title = ''Search failed'', link = [],
                           snippet = ''Could not complete the search, error message: '' @
                                     message error\<rparr>]\<rparr>)))"

text \<open>
  The context and the page, made before the \<^verbatim>\<open>try\<close> block; \<open>rest\<close> is what follows
  in the function body.
\<close>

definition openPage ::
  "Closure \<Rightarrow> browser \<Rightarrow> (ContextOptions \<Rightarrow> browserContext \<Rightarrow> page \<Rightarrow> 'a prog) \<Rightarrow> 'a prog" where
  "openPage cl b rest =
     bind (buildContextOptions (cl_host cl) (cl_locale cl)) (\<lambda>(deviceName, contextOptions).
     bind (newContext b contextOptions (cl_storageState cl)) (\<lambda>ctx.
     bind (call (ContextAddInitScript ctx)) (\<lambda>u.
     bind (newPage ctx) (\<lambda>pg.
     bind (call (PageAddInitScript pg)) (\<lambda>u. rest contextOptions ctx pg)))))"

text \<open>
  One run of the body of \<^verbatim>\<open>performSearch(headless)\<close>: the caller's browser when there
  is one (\<^verbatim>\<open>browserWasProvided = true\<close>), a launched one otherwise; the context and
  the page; the \<^verbatim>\<open>try\<close> and \<^verbatim>\<open>catch\<close> blocks.
\<close>

definition searchAttempt :: "Closure \<Rightarrow> bool \<Rightarrow> SearchResponse outcome prog" where
  "searchAttempt cl headless =
     (case cl_existingBrowser cl of
        Some existingBrowser \<Rightarrow>
          openPage cl existingBrowser (\<lambda>contextOptions ctx pg.
            tryCatch (searchTry cl headless existingBrowser True contextOptions ctx pg)
              (searchCatch cl existingBrowser True ctx))
      | None \<Rightarrow>
          bind (launch headless) (\<lambda>b.
            openPage cl b (\<lambda>contextOptions ctx pg.
              tryCatch (searchTry cl headless b False contextOptions ctx pg)
                (searchCatch cl b False ctx))))"

text \<open>
  The statements of an attempt that come before its \<^verbatim>\<open>try\<close> block: the browser is
  taken or launched, the context options are built, the context and the page are made
  and get their init scripts. \<open>enterTry\<close> returns what the two blocks then use:
  \<^verbatim>\<open>browser\<close>, \<^verbatim>\<open>browserWasProvided\<close>, \<^verbatim>\<open>contextOptions\<close>, \<^verbatim>\<open>context\<close> and \<^verbatim>\<open>page\<close>.
\<close>

definition enterTry ::
  "Closure \<Rightarrow> bool \<Rightarrow> (browser \<times> bool \<times> ContextOptions \<times> browserContext \<times> page) prog" where
  "enterTry cl headless =
     (case cl_existingBrowser cl of
        Some existingBrowser \<Rightarrow>
          openPage cl existingBrowser (\<lambda>contextOptions ctx pg.
            return (existingBrowser, True, contextOptions, ctx, pg))
      | None \<Rightarrow>
          bind (launch headless) (\<lambda>b.
            openPage cl b (\<lambda>contextOptions ctx pg.
              return (b, False, contextOptions, ctx, pg))))"


section \<open>One attempt of \<^verbatim>\<open>performSearchAndGetHtml\<close>\<close>

text \<open>
  The HTML capture launches its own browser on every attempt (it has no
  \<^verbatim>\<open>existingBrowser\<close> parameter), makes the first two checks as \<^verbatim>\<open>performSearch\<close>
  does and has no wait for a results container.
\<close>

definition htmlRestartHeaded :: "browser \<Rightarrow> browserContext \<Rightarrow> page \<Rightarrow> 'a outcome prog" where
  "htmlRestartHeaded b ctx pg =
     bind (call (PageClose pg)) (\<lambda>u.
     bind (call (ContextClose ctx)) (\<lambda>u.
     bind (call (BrowserClose b)) (\<lambda>u. return Rerun)))"

definition isAlphaNumeric :: "char \<Rightarrow> bool" where
  "isAlphaNumeric c =
     (let n = (of_char c :: nat)
      in (97 \<le> n \<and> n \<le> 122) \<or> (65 \<le> n \<and> n \<le> 90) \<or> (48 \<le> n \<and> n \<le> 57))"

text \<open>
  \<^verbatim>\<open>${outputDir}/${sanitizedQuery}-${timestamp}.html\<close>, from the query and the ISO time
  stamp of \<^verbatim>\<open>new Date()\<close>.
\<close>

definition defaultOutputPath :: "string \<Rightarrow> string \<Rightarrow> string" where
  "defaultOutputPath q isoString =
     (let timestamp = map (\<lambda>c. if c = CHR '':'' \<or> c = CHR ''.'' then CHR ''-'' else c) isoString;
          sanitizedQuery = take 50 (map (\<lambda>c. if isAlphaNumeric c then c else CHR ''_'') q)
      in ''./google-search-html'' @ ''/'' @ sanitizedQuery @ ''-'' @ timestamp @ ''.html'')"

text \<open>\<^verbatim>\<open>outputPath.replace(/\.html$/, ".png")\<close>.\<close>

definition screenshotFilePath :: "string \<Rightarrow> string" where
  "screenshotFilePath outputPath =
     (if endsWith outputPath ''.html''
      then take (length outputPath - length ''.html'') outputPath @ ''.png''
      else outputPath)"

definition saveHtmlFile ::
  "Closure \<Rightarrow> string option \<Rightarrow> string \<Rightarrow> page \<Rightarrow> (string option \<times> string option) prog" where
  "saveHtmlFile cl outputPath cleaned pg =
     bind (if orElse outputPath [] = [] then
             bind (perform (ExistsSync ''./google-search-html'')) (\<lambda>dirExists.
             bind (if \<not> r_found dirExists
                   then bind (call (MkdirSync ''./google-search-html'')) (\<lambda>u. return ())
                   else return ()) (\<lambda>u.
             bind (perform DateNow) (\<lambda>now.
               return (defaultOutputPath (cl_query cl) (r_timestamp now)))))
           else return (orElse outputPath [])) (\<lambda>outputPath'.
     bind (perform (ExistsSync (dirname outputPath'))) (\<lambda>dirExists.
     bind (if \<not> r_found dirExists
           then bind (call (MkdirSync (dirname outputPath'))) (\<lambda>u. return ())
           else return ()) (\<lambda>u.
     bind (call (WriteFileSync outputPath' (Text cleaned))) (\<lambda>u.
     bind (call (Screenshot pg (screenshotFilePath outputPath'))) (\<lambda>u.
       return (Some outputPath', Some (screenshotFilePath outputPath')))))))"

text \<open>
  The end of the \<^verbatim>\<open>try\<close> block of the capture. The three pattern substitutions that
  strip \<^verbatim>\<open>style\<close>, stylesheet \<^verbatim>\<open>link\<close> and \<^verbatim>\<open>script\<close> elements from the page content
  are the parameter \<open>strip\<close>.
\<close>

definition captureHtml ::
  "Closure \<Rightarrow> bool \<Rightarrow> string option \<Rightarrow> (string \<Rightarrow> string) \<Rightarrow> browser \<Rightarrow> browserContext \<Rightarrow>
   page \<Rightarrow> HtmlResponse outcome prog" where
  "captureHtml cl saveToFile outputPath strip b ctx pg =
     bind (perform (PageUrl pg)) (\<lambda>finalUrl.
     bind (call (WaitForTimeout pg 1000)) (\<lambda>u.
     bind (call (WaitForLoadState pg)) (\<lambda>u.
     bind (call (PageContent pg)) (\<lambda>content.
     bind (if saveToFile then saveHtmlFile cl outputPath (strip (r_content content)) pg
           else return (None, None)) (\<lambda>(savedFilePath, screenshotPath').
     bind (saveState cl ctx) (\<lambda>u.
     bind (call (BrowserClose b)) (\<lambda>u.
       return (Return \<lparr>html_query = cl_query cl, html = strip (r_content content),
                       html_url = r_url finalUrl, savedPath = savedFilePath,
                       screenshotPath = screenshotPath',
                       originalHtmlLength = length (r_content content)\<rparr>))))))))"

definition htmlEnterQuery ::
  "Closure \<Rightarrow> bool \<Rightarrow> string option \<Rightarrow> (string \<Rightarrow> string) \<Rightarrow> bool \<Rightarrow> browser \<Rightarrow>
   browserContext \<Rightarrow> page \<Rightarrow> HtmlResponse outcome prog" where
  "htmlEnterQuery cl saveToFile outputPath strip headless b ctx pg =
     bind (submitQuery cl pg) (\<lambda>u.
     bind (perform (PageUrl pg)) (\<lambda>searchUrl.
       if isBlockedAfterSearch (r_url searchUrl) then
         (if headless then htmlRestartHeaded b ctx pg
          else
            bind (call (WaitForNavigation pg)) (\<lambda>u.
            bind (call (WaitForLoadState pg)) (\<lambda>u.
              captureHtml cl saveToFile outputPath strip b ctx pg)))
       else captureHtml cl saveToFile outputPath strip b ctx pg))"

definition htmlTry ::
  "Closure \<Rightarrow> bool \<Rightarrow> string option \<Rightarrow> (string \<Rightarrow> string) \<Rightarrow> bool \<Rightarrow> browser \<Rightarrow>
   browserContext \<Rightarrow> page \<Rightarrow> HtmlResponse outcome prog" where
  "htmlTry cl saveToFile outputPath strip headless b ctx pg =
     bind selectDomain (\<lambda>selectedDomain.
     bind (call (Goto pg selectedDomain)) (\<lambda>response.
     bind (perform (PageUrl pg)) (\<lambda>currentUrl.
       if isBlockedPage (r_url currentUrl) (r_response response) then
         (if headless then htmlRestartHeaded b ctx pg
          else
            bind (call (WaitForNavigation pg)) (\<lambda>u.
              htmlEnterQuery cl saveToFile outputPath strip headless b ctx pg))
       else htmlEnterQuery cl saveToFile outputPath strip headless b ctx pg)))"

text \<open>The \<^verbatim>\<open>catch\<close> block of \<^verbatim>\<open>performSearchAndGetHtml\<close>.\<close>

definition htmlCatch ::
  "Closure \<Rightarrow> browser \<Rightarrow> browserContext \<Rightarrow> js_error \<Rightarrow> HtmlResponse outcome prog" where
  "htmlCatch cl b ctx error =
     bind (saveState cl ctx) (\<lambda>u.
     bind (call (BrowserClose b)) (\<lambda>u.
       throw (Error (''Failed to get Google search page HTML: '' @ message error))))"

definition htmlAttempt ::
  "Closure \<Rightarrow> bool \<Rightarrow> string option \<Rightarrow> (string \<Rightarrow> string) \<Rightarrow> bool \<Rightarrow>
   HtmlResponse outcome prog" where
  "htmlAttempt cl saveToFile outputPath strip headless =
     bind (launch headless) (\<lambda>b.
       openPage cl b (\<lambda>contextOptions ctx pg.
         tryCatch (htmlTry cl saveToFile outputPath strip headless b ctx pg)
           (htmlCatch cl b ctx)))"

text \<open>The statements of an attempt of the capture that come before its \<^verbatim>\<open>try\<close> block.\<close>

definition htmlEnterTry :: "Closure \<Rightarrow> bool \<Rightarrow> (browser \<times> browserContext \<times> page) prog" where
  "htmlEnterTry cl headless =
     bind (launch headless) (\<lambda>b.
       openPage cl b (\<lambda>contextOptions ctx pg. return (b, ctx, pg)))"


section \<open>A headed attempt does not start another one\<close>

text \<open>
  \<^verbatim>\<open>performSearch\<close> and \<^verbatim>\<open>performSearchAndGetHtml\<close> call themselves, always with
  \<^verbatim>\<open>false\<close> and only in the branches guarded by \<^verbatim>\<open>if (headless)\<close>. So an attempt
  with \<^verbatim>\<open>headless = false\<close> never ends with \<open>Rerun\<close>, and the recursion stops after
  at most one step.
\<close>

definition noRerun :: "'a outcome prog \<Rightarrow> bool" where
  "noRerun m = (\<forall>s. fst (m s) \<noteq> Inr Rerun)"

lemma noRerun_bind: "(\<And>x. noRerun (f x)) \<Longrightarrow> noRerun (bind m f)"
  by (auto simp: noRerun_def bind_def split: prod.splits sum.splits)

lemma noRerun_return: "noRerun (return (Return r))"
  by (simp add: noRerun_def return_def)

lemma noRerun_throw: "noRerun (throw e)"
  by (simp add: noRerun_def throw_def)

lemma noRerun_tryCatch: "noRerun m \<Longrightarrow> (\<And>e. noRerun (h e)) \<Longrightarrow> noRerun (tryCatch m h)"
  by (auto simp: noRerun_def tryCatch_def split: prod.splits sum.splits) (metis fst_conv)

lemma noRerun_if:
  "(c \<Longrightarrow> noRerun a) \<Longrightarrow> (\<not> c \<Longrightarrow> noRerun b) \<Longrightarrow> noRerun (if c then a else b)"
  by simp

lemma noRerun_pair: "(\<And>a b. noRerun (f a b)) \<Longrightarrow> noRerun (case x of (a, b) \<Rightarrow> f a b)"
  by (cases x) simp

lemma noRerun_option:
  "noRerun a \<Longrightarrow> (\<And>x. noRerun (f x)) \<Longrightarrow> noRerun (case v of None \<Rightarrow> a | Some x \<Rightarrow> f x)"
  by (cases v) simp_all

lemmas noRerun_rules =
  noRerun_bind noRerun_return noRerun_throw noRerun_tryCatch noRerun_if noRerun_pair
  noRerun_option

lemma noRerun_openPage:
  "(\<And>co ctx pg. noRerun (rest co ctx pg)) \<Longrightarrow> noRerun (openPage cl b rest)"
  unfolding openPage_def by (intro noRerun_rules)

lemma noRerun_extractAndReturn: "noRerun (extractAndReturn cl b p ctx pg)"
  unfolding extractAndReturn_def by (intro noRerun_rules)

lemma noRerun_awaitResults: "noRerun (awaitResults cl False b p co ctx pg)"
  unfolding awaitResults_def by (intro noRerun_rules noRerun_extractAndReturn) simp_all

lemma noRerun_enterQuery: "noRerun (enterQuery cl False b p co ctx pg)"
  unfolding enterQuery_def by (intro noRerun_rules noRerun_awaitResults) simp_all

lemma noRerun_searchTry: "noRerun (searchTry cl False b p co ctx pg)"
  unfolding searchTry_def by (intro noRerun_rules noRerun_enterQuery) simp_all

lemma noRerun_searchCatch: "noRerun (searchCatch cl b p ctx e)"
  unfolding searchCatch_def by (intro noRerun_rules)

lemma noRerun_searchAttempt: "noRerun (searchAttempt cl False)"
  unfolding searchAttempt_def
  by (intro noRerun_rules noRerun_openPage noRerun_searchTry noRerun_searchCatch)

lemma searchAttempt_Rerun_headless:
  "searchAttempt cl headless s = (Inr Rerun, s') \<Longrightarrow> headless"
  using noRerun_searchAttempt [of cl]
  by (cases headless) (auto simp: noRerun_def dest: spec [of _ s])

lemma noRerun_captureHtml: "noRerun (captureHtml cl saveToFile outputPath strip b ctx pg)"
  unfolding captureHtml_def by (intro noRerun_rules)

lemma noRerun_htmlEnterQuery:
  "noRerun (htmlEnterQuery cl saveToFile outputPath strip False b ctx pg)"
  unfolding htmlEnterQuery_def by (intro noRerun_rules noRerun_captureHtml) simp_all

lemma noRerun_htmlTry: "noRerun (htmlTry cl saveToFile outputPath strip False b ctx pg)"
  unfolding htmlTry_def by (intro noRerun_rules noRerun_htmlEnterQuery) simp_all

lemma noRerun_htmlCatch: "noRerun (htmlCatch cl b ctx e)"
  unfolding htmlCatch_def by (intro noRerun_rules)

lemma noRerun_htmlAttempt: "noRerun (htmlAttempt cl saveToFile outputPath strip False)"
  unfolding htmlAttempt_def
  by (intro noRerun_rules noRerun_openPage noRerun_htmlTry noRerun_htmlCatch)

lemma htmlAttempt_Rerun_headless:
  "htmlAttempt cl saveToFile outputPath strip headless s = (Inr Rerun, s') \<Longrightarrow> headless"
  using noRerun_htmlAttempt [of cl saveToFile outputPath strip]
  by (cases headless) (auto simp: noRerun_def dest: spec [of _ s])


section \<open>The entry points\<close>

text \<open>
  \<^verbatim>\<open>performSearch(headless)\<close>: one attempt, and where the attempt ended with
  \<^verbatim>\<open>return performSearch(false)\<close>, the recursive call.
\<close>

function performSearch :: "Closure \<Rightarrow> bool \<Rightarrow> SearchResponse prog" where
  "performSearch cl headless s =
     (case searchAttempt cl headless s of
        (Inl e, s') \<Rightarrow> (Inl e, s')
      | (Inr (Return response), s') \<Rightarrow> (Inr response, s')
      | (Inr Rerun, s') \<Rightarrow> performSearch cl False s')"
  by pat_completeness auto
termination
proof (relation "measure (\<lambda>(cl, headless, s). if headless then 1 else 0)")
  show "wf (measure (\<lambda>(cl :: Closure, headless, s :: world). if headless then 1 else 0))"
    by simp
next
  fix cl headless s x1 x2 x2a
  assume "(x1, x2) = searchAttempt cl headless s" "x1 = Inr x2a" "x2a = Rerun"
  then have "headless"
    using searchAttempt_Rerun_headless [of cl headless s x2] by simp
  then show "((cl, False, x2), cl, headless, s)
      \<in> measure (\<lambda>(cl, headless, s). if headless then 1 else 0)"
    by simp
qed

declare performSearch.simps [simp del]

function performSearchAndGetHtml ::
  "Closure \<Rightarrow> bool \<Rightarrow> string option \<Rightarrow> (string \<Rightarrow> string) \<Rightarrow> bool \<Rightarrow> HtmlResponse prog" where
  "performSearchAndGetHtml cl saveToFile outputPath strip headless s =
     (case htmlAttempt cl saveToFile outputPath strip headless s of
        (Inl e, s') \<Rightarrow> (Inl e, s')
      | (Inr (Return response), s') \<Rightarrow> (Inr response, s')
      | (Inr Rerun, s') \<Rightarrow> performSearchAndGetHtml cl saveToFile outputPath strip False s')"
  by pat_completeness auto
termination
proof (relation "measure (\<lambda>(cl, saveToFile, outputPath, strip, headless, s).
                            if headless then 1 else 0)")
  show "wf (measure (\<lambda>(cl :: Closure, saveToFile :: bool, outputPath :: string option,
                        strip :: string \<Rightarrow> string, headless, s :: world).
                       if headless then 1 else 0))"
    by simp
next
  fix cl saveToFile outputPath strip headless s x1 x2 x2a
  assume "(x1, x2) = htmlAttempt cl saveToFile outputPath strip headless s"
    "x1 = Inr x2a" "x2a = Rerun"
  then have "headless"
    using htmlAttempt_Rerun_headless [of cl saveToFile outputPath strip headless s x2]
    by simp
  then show "((cl, saveToFile, outputPath, strip, False, x2),
              cl, saveToFile, outputPath, strip, headless, s)
      \<in> measure (\<lambda>(cl, saveToFile, outputPath, strip, headless, s).
                    if headless then 1 else 0)"
    by simp
qed

declare performSearchAndGetHtml.simps [simp del]

text \<open>
  The start of both entry points: \<^verbatim>\<open>storageState\<close> is the state file when it exists,
  and \<^verbatim>\<open>savedState\<close> is read from the fingerprint file when that exists too and
  parses. A file that parses is taken to hold an object of the shape of
  \<^verbatim>\<open>SavedState\<close>, as the type of the variable says; a file that holds another JSON
  value (\<^verbatim>\<open>null\<close>, a number) has no counterpart here.
\<close>

definition loadSavedState :: "string \<Rightarrow> string \<Rightarrow> string option prog" where
  "loadSavedState stateFile fpFile =
     bind (perform (ExistsSync stateFile)) (\<lambda>stateExists.
       if r_found stateExists then
         bind (perform (ExistsSync fpFile)) (\<lambda>fpExists.
         bind (if r_found fpExists
               then tryCatch
                      (bind (call (ReadFileSync fpFile)) (\<lambda>fingerprintData.
                         setSavedState (r_saved fingerprintData)))
                      (\<lambda>e. return ())
               else return ()) (\<lambda>u. return (Some stateFile)))
       else return None)"

definition initialWorld :: "(nat \<Rightarrow> reply) \<Rightarrow> world" where
  "initialWorld env =
     \<lparr>replies = env, trace = [], savedState = \<lparr>fingerprint = None, googleDomain = None\<rparr>\<rparr>"

definition googleSearch ::
  "(nat \<Rightarrow> reply) \<Rightarrow> Host \<Rightarrow> string \<Rightarrow> CommandOptions \<Rightarrow> browser option \<Rightarrow>
   (js_error + SearchResponse) \<times> world" where
  "googleSearch env host q options existingBrowser =
     (let limit = (case opt_limit options of None \<Rightarrow> 10 | Some n \<Rightarrow> n);
          stateFile = (case opt_stateFile options of
                         None \<Rightarrow> ''./browser-state.json'' | Some f \<Rightarrow> f);
          noSaveState = (case opt_noSaveState options of None \<Rightarrow> False | Some b \<Rightarrow> b);
          userLocale = (case opt_locale options of None \<Rightarrow> ''en-US'' | Some l \<Rightarrow> l);
          headless = (case opt_headless options of None \<Rightarrow> True | Some h \<Rightarrow> h);
          useHeadless = headless
      in bind (loadSavedState stateFile (fingerprintFile stateFile)) (\<lambda>storageState.
           performSearch
             \<lparr>cl_host = host, cl_query = q, cl_limit = limit, cl_stateFile = stateFile,
              cl_noSaveState = noSaveState, cl_locale = userLocale,
              cl_storageState = storageState,
              cl_fingerprintFile = fingerprintFile stateFile,
              cl_existingBrowser = existingBrowser\<rparr>
             useHeadless)
           (initialWorld env))"

definition getGoogleSearchPageHtml ::
  "(nat \<Rightarrow> reply) \<Rightarrow> Host \<Rightarrow> (string \<Rightarrow> string) \<Rightarrow> string \<Rightarrow> CommandOptions \<Rightarrow> bool \<Rightarrow>
   string option \<Rightarrow> (js_error + HtmlResponse) \<times> world" where
  "getGoogleSearchPageHtml env host strip q options saveToFile outputPath =
     (let stateFile = (case opt_stateFile options of
                         None \<Rightarrow> ''./browser-state.json'' | Some f \<Rightarrow> f);
          noSaveState = (case opt_noSaveState options of None \<Rightarrow> False | Some b \<Rightarrow> b);
          userLocale = (case opt_locale options of None \<Rightarrow> ''en-US'' | Some l \<Rightarrow> l);
          useHeadless = True
      in bind (loadSavedState stateFile (fingerprintFile stateFile)) (\<lambda>storageState.
           performSearchAndGetHtml
             \<lparr>cl_host = host, cl_query = q, cl_limit = 10, cl_stateFile = stateFile,
              cl_noSaveState = noSaveState, cl_locale = userLocale,
              cl_storageState = storageState,
              cl_fingerprintFile = fingerprintFile stateFile,
              cl_existingBrowser = None\<rparr>
             saveToFile outputPath strip useHeadless)
           (initialWorld env))"

text \<open>
  The variables that the nested functions close over, as the entry points set them
  before the first attempt: \<open>stateFileOf\<close> is \<^verbatim>\<open>stateFile\<close>, \<open>loaded\<close> is the reading of
  the saved state (its first call asks whether the state file exists, and
  \<^verbatim>\<open>storageState\<close> is set when it does), \<open>firstHeadless\<close> is \<^verbatim>\<open>useHeadless\<close>. The capture
  has no \<^verbatim>\<open>limit\<close>; its closure holds the default, which nothing reads.
\<close>

definition stateFileOf :: "CommandOptions \<Rightarrow> string" where
  "stateFileOf options =
     (case opt_stateFile options of None \<Rightarrow> ''./browser-state.json'' | Some f \<Rightarrow> f)"

definition loaded :: "(nat \<Rightarrow> reply) \<Rightarrow> CommandOptions \<Rightarrow> (js_error + string option) \<times> world" where
  "loaded env options =
     loadSavedState (stateFileOf options) (fingerprintFile (stateFileOf options))
       (initialWorld env)"

definition searchClosure ::
  "(nat \<Rightarrow> reply) \<Rightarrow> Host \<Rightarrow> string \<Rightarrow> CommandOptions \<Rightarrow> browser option \<Rightarrow> Closure" where
  "searchClosure env host q options existingBrowser =
     \<lparr>cl_host = host, cl_query = q,
      cl_limit = (case opt_limit options of None \<Rightarrow> 10 | Some n \<Rightarrow> n),
      cl_stateFile = stateFileOf options,
      cl_noSaveState = (case opt_noSaveState options of None \<Rightarrow> False | Some b \<Rightarrow> b),
      cl_locale = (case opt_locale options of None \<Rightarrow> ''en-US'' | Some l \<Rightarrow> l),
      cl_storageState = (if r_found (env 0) then Some (stateFileOf options) else None),
      cl_fingerprintFile = fingerprintFile (stateFileOf options),
      cl_existingBrowser = existingBrowser\<rparr>"

definition captureClosure :: "(nat \<Rightarrow> reply) \<Rightarrow> Host \<Rightarrow> string \<Rightarrow> CommandOptions \<Rightarrow> Closure" where
  "captureClosure env host q options = (searchClosure env host q options None)\<lparr>cl_limit := 10\<rparr>"

definition firstHeadless :: "CommandOptions \<Rightarrow> bool" where
  "firstHeadless options = (case opt_headless options of None \<Rightarrow> True | Some h \<Rightarrow> h)"

text \<open>
  The attempts of a run. The first attempt starts with the flag and in the state that
  the entry point hands to \<^verbatim>\<open>performSearch\<close>. When it ends with
  \<^verbatim>\<open>return performSearch(false)\<close>, a second attempt starts with \<^verbatim>\<open>false\<close> in the state
  that the first one left. A headed attempt starts no other, so a run has no third
  attempt. \<open>attemptAt cl useHeadless s0 headless s\<close> says that the run from \<open>s0\<close> has
  an attempt with the flag \<open>headless\<close> that starts in \<open>s\<close>.
\<close>

definition attemptAt :: "Closure \<Rightarrow> bool \<Rightarrow> world \<Rightarrow> bool \<Rightarrow> world \<Rightarrow> bool" where
  "attemptAt cl useHeadless s0 headless s =
     ((headless = useHeadless \<and> s = s0) \<or>
      (fst (searchAttempt cl useHeadless s0) = Inr Rerun \<and> headless = False \<and>
       s = snd (searchAttempt cl useHeadless s0)))"

definition htmlAttemptAt ::
  "Closure \<Rightarrow> bool \<Rightarrow> string option \<Rightarrow> (string \<Rightarrow> string) \<Rightarrow> bool \<Rightarrow> world \<Rightarrow> bool \<Rightarrow> world \<Rightarrow>
   bool" where
  "htmlAttemptAt cl saveToFile outputPath strip useHeadless s0 headless s =
     ((headless = useHeadless \<and> s = s0) \<or>
      (fst (htmlAttempt cl saveToFile outputPath strip useHeadless s0) = Inr Rerun \<and>
       headless = False \<and>
       s = snd (htmlAttempt cl saveToFile outputPath strip useHeadless s0)))"


section \<open>Sample inputs\<close>

text \<open>
  A results page with three result containers under the first container selector, two
  of them with the same link, the same containers again under the second selector, and
  three anchors: one already seen, one of the search engine itself, one new.
\<close>

definition sampleContainer :: "string \<Rightarrow> string \<Rightarrow> ContainerElement" where
  "sampleContainer heading href =
     \<lparr>ce_title = (\<lambda>sel. if sel = ''h3''
                         then Some \<lparr>te_textContent = heading, te_anchorInside = None,
                                    te_anchorAbove = Some href\<rparr>
                         else None),
      ce_text = (\<lambda>sel. if sel = ''.VwiC3b'' then Some ''  a short description  '' else None),
      ce_firstAnchor = Some href,
      ce_divs = []\<rparr>"

definition sampleAnchor :: "string \<Rightarrow> string \<Rightarrow> AnchorElement" where
  "sampleAnchor text href =
     \<lparr>ae_isHTMLAnchor = True, ae_href = href, ae_textContent = text,
      ae_ancestorTexts = [text, ''a paragraph that surrounds the anchor'']\<rparr>"

definition sampleDocument :: Document where
  "sampleDocument =
     \<lparr>querySelectorAll =
        (\<lambda>sel. if sel = ''#search div[data-hveid]'' \<or> sel = ''#rso div[data-hveid]''
               then [sampleContainer ''First'' ''https://a.example/'',
                     sampleContainer ''First again'' ''https://a.example/'',
                     sampleContainer ''Second'' ''https://b.example/'']
               else []),
      httpAnchors =
        [sampleAnchor ''First'' ''https://a.example/'',
         sampleAnchor ''Images'' ''https://www.google.com/imghp'',
         sampleAnchor ''Third'' ''https://c.example/'']\<rparr>"


text \<open>
  Replies, a host, options and environments for the sample runs: \<open>quietReply\<close> answers
  every call without an exception, with a results URL, a found element and an existing
  file; \<open>sampleHost\<close> is a Linux machine whose registry knows the four desktop presets.
\<close>

definition quietReply :: reply where
  "quietReply =
     \<lparr>throws = None, r_url = ''https://www.google.com/search?q=x'',
      r_response = Some ''https://www.google.com/'', r_found = True, r_random = 0,
      r_saved = \<lparr>fingerprint = None, googleDomain = None\<rparr>, r_document = sampleDocument,
      r_content = ''<html></html>'', r_timestamp = ''2025-04-06T03:30:06.852Z''\<rparr>"

definition desktopPreset :: "string \<Rightarrow> DeviceDescriptor" where
  "desktopPreset n =
     \<lparr>userAgent = n, viewportWidth = 1280, viewportHeight = 720,
      defaultBrowserType = ''chromium''\<rparr>"

definition sampleHost :: Host where
  "sampleHost =
     \<lparr>devices = (\<lambda>n. if n \<in> set deviceList then Some (desktopPreset n) else None),
      env_LANG = None, timezoneOffset = 0, hours = 12, platform = ''linux''\<rparr>"

definition noOptions :: CommandOptions where
  "noOptions =
     \<lparr>opt_limit = None, opt_timeout = None, opt_headless = None, opt_stateFile = None,
      opt_noSaveState = None, opt_locale = None\<rparr>"

text \<open>
  With the caller's browser, the eleventh call of a run is the \<^verbatim>\<open>page.url()\<close> of the
  first check; in \<open>blockedAfterNavigation\<close> it answers with a verification page.
\<close>

definition blockedAfterNavigation :: "nat \<Rightarrow> reply" where
  "blockedAfterNavigation =
     (\<lambda>k. quietReply)
       (10 := quietReply\<lparr>r_url := ''https://www.google.com/sorry/index?continue=x''\<rparr>)"

text \<open>In \<open>nothingFound\<close> no file exists and no selector finds an element.\<close>

definition nothingFound :: "nat \<Rightarrow> reply" where
  "nothingFound = (\<lambda>k. quietReply\<lparr>r_found := False\<rparr>)"

text \<open>
  In \<open>allQuiet\<close> every call gets the quiet reply. \<open>keepAll\<close> stands for the stripping of
  the page content in the sample runs of the capture, where the content does not
  matter.
\<close>

definition allQuiet :: "nat \<Rightarrow> reply" where
  "allQuiet = (\<lambda>k. quietReply)"

definition keepAll :: "string \<Rightarrow> string" where
  "keepAll content = content"

definition sampleClosure :: Closure where
  "sampleClosure =
     \<lparr>cl_host = sampleHost, cl_query = ''x'', cl_limit = 10,
      cl_stateFile = ''./browser-state.json'', cl_noSaveState = False, cl_locale = ''en-US'',
      cl_storageState = None, cl_fingerprintFile = ''./browser-state-fingerprint.json'',
      cl_existingBrowser = None\<rparr>"

definition sampleContextOptions :: ContextOptions where
  "sampleContextOptions =
     \<lparr>co_device = Some (desktopPreset ''Desktop Firefox''), co_locale = ''en-US'',
      co_timezoneId = ''Europe/London'', co_colorScheme = Light,
      co_reducedMotion = NoPreference, co_forcedColors = NoForcedColors\<rparr>"

text \<open>
  Two persisted profiles: one of a registered preset, one of a device name that the
  registry does not know; and the world at the start of an attempt with a given saved
  state.
\<close>

definition safariFingerprint :: FingerprintConfig where
  "safariFingerprint =
     \<lparr>fp_deviceName = ''Desktop Safari'', fp_locale = ''de-DE'',
      fp_timezoneId = ''Europe/Berlin'', fp_colorScheme = Dark, fp_reducedMotion = Reduce,
      fp_forcedColors = NoForcedColors\<rparr>"

definition staleFingerprint :: FingerprintConfig where
  "staleFingerprint =
     \<lparr>fp_deviceName = ''Galaxy S99'', fp_locale = ''fr-FR'',
      fp_timezoneId = ''Europe/Paris'', fp_colorScheme = Dark, fp_reducedMotion = Reduce,
      fp_forcedColors = Active\<rparr>"

definition worldWith :: "FingerprintConfig option \<Rightarrow> world" where
  "worldWith fp =
     \<lparr>replies = (\<lambda>k. quietReply), trace = [],
      savedState = \<lparr>fingerprint = fp, googleDomain = None\<rparr>\<rparr>"

text \<open>
  Three more environments for runs without the caller's browser and with the default
  options. There the fourth call of a run is \<^verbatim>\<open>browser.newContext\<close>, the tenth is the
  \<^verbatim>\<open>page.url()\<close> of the first check and, when no selector finds the search box, the
  twenty-second is the \<^verbatim>\<open>browser.close()\<close> of the \<^verbatim>\<open>catch\<close> block. In \<open>contextFails\<close>
  the context cannot be made; in \<open>closeFails\<close> the close in the \<^verbatim>\<open>catch\<close> block throws;
  in \<open>blockedOnce\<close> the first attempt meets a verification page and the second one
  finds no search box.
\<close>

definition contextFails :: "nat \<Rightarrow> reply" where
  "contextFails = nothingFound (3 := quietReply\<lparr>throws := Some ''bad storage state''\<rparr>)"

definition closeFails :: "nat \<Rightarrow> reply" where
  "closeFails = nothingFound (21 := quietReply\<lparr>throws := Some ''Target closed''\<rparr>)"

definition blockedOnce :: "nat \<Rightarrow> reply" where
  "blockedOnce =
     nothingFound
       (9 := quietReply\<lparr>r_url := ''https://www.google.com/sorry/index?continue=x'',
                        r_found := False\<rparr>)"


section \<open>Reading a trace\<close>

text \<open>
  The headless flags of the launches of a run and the browsers on which its contexts
  were created, in the order of the calls.
\<close>

fun launchFlag :: "op \<Rightarrow> bool option" where
  "launchFlag (Launch headless) = Some headless"
| "launchFlag c = None"

definition launches :: "op list \<Rightarrow> bool list" where
  "launches tr = List.map_filter launchFlag tr"

fun contextBrowser :: "op \<Rightarrow> browser option" where
  "contextBrowser (NewContext b contextOptions storageState) = Some b"
| "contextBrowser c = None"

definition contextBrowsers :: "op list \<Rightarrow> browser list" where
  "contextBrowsers tr = List.map_filter contextBrowser tr"

text \<open>
  Ownership. A run owns a browser, a context or a page when the handle names a call of
  the run that created it: a launch, a \<^verbatim>\<open>newContext\<close>, a \<^verbatim>\<open>newPage\<close>. The caller's
  browser is never owned. \<open>closesOnlyOwn\<close> says that every \<^verbatim>\<open>close\<close> in a trace is the
  close of a handle that the trace owns.
\<close>

datatype handle = HB browser | HC browserContext | HP page

fun isLaunch :: "op \<Rightarrow> bool" where
  "isLaunch (Launch headless) = True"
| "isLaunch c = False"

fun isNewContext :: "op \<Rightarrow> bool" where
  "isNewContext (NewContext b contextOptions storageState) = True"
| "isNewContext c = False"

fun isNewPage :: "op \<Rightarrow> bool" where
  "isNewPage (NewPage c) = True"
| "isNewPage c = False"

fun owns :: "op list \<Rightarrow> handle \<Rightarrow> bool" where
  "owns tr (HB Shared) = False"
| "owns tr (HB (Launched k)) = (k < length tr \<and> isLaunch (tr ! k))"
| "owns tr (HC (Context k)) = (k < length tr \<and> isNewContext (tr ! k))"
| "owns tr (HP (Page k)) = (k < length tr \<and> isNewPage (tr ! k))"

fun closes :: "op \<Rightarrow> handle option" where
  "closes (BrowserClose b) = Some (HB b)"
| "closes (ContextClose c) = Some (HC c)"
| "closes (PageClose p) = Some (HP p)"
| "closes c = None"

definition closesOnlyOwn :: "op list \<Rightarrow> bool" where
  "closesOnlyOwn tr =
     list_all (\<lambda>c. case closes c of None \<Rightarrow> True | Some h \<Rightarrow> owns tr h) tr"

text \<open>
  The invariant of a run: its trace closes only what it owns, and the handles in scope
  (the set \<open>H\<close>) are owned. A program keeps the invariant when it holds after the
  program on every path, returned or thrown.
\<close>

definition Inv :: "handle set \<Rightarrow> world \<Rightarrow> bool" where
  "Inv H s = (closesOnlyOwn (trace s) \<and> (\<forall>h\<in>H. owns (trace s) h))"

definition keeps :: "handle set \<Rightarrow> 'a prog \<Rightarrow> bool" where
  "keeps H m = (\<forall>s. Inv H s \<longrightarrow> Inv H (snd (m s)))"


section \<open>Properties of the extraction\<close>

text \<open>
  The accumulator of the loops keeps the links of the results found so far pairwise
  distinct and inside \<^verbatim>\<open>seenUrls\<close>.
\<close>

definition linksSeen :: "extraction \<Rightarrow> bool" where
  "linksSeen acc = (distinct (map link (fst acc)) \<and> link ` set (fst acc) \<subseteq> snd acc)"

lemma linksSeen_push:
  "linksSeen (found, seenUrls) \<Longrightarrow> l \<notin> seenUrls \<Longrightarrow>
   linksSeen (found @ [\<lparr>title = t, link = l, snippet = sn\<rparr>], insert l seenUrls)"
  by (auto simp: linksSeen_def)

lemma processContainers_linksSeen:
  "linksSeen acc \<Longrightarrow> linksSeen (processContainers maxResults selectors cs acc)"
proof (induction maxResults selectors cs acc rule: processContainers.induct)
  case (1 maxResults selectors found seenUrls)
  then show ?case by simp
next
  case (2 maxResults selectors container rest found seenUrls)
  then show ?case
    by (auto simp: Let_def linksSeen_push split: option.splits)
qed

lemma processSelectorSets_linksSeen:
  "linksSeen acc \<Longrightarrow> linksSeen (processSelectorSets maxResults doc sets acc)"
proof (induction maxResults doc sets acc rule: processSelectorSets.induct)
  case (1 maxResults doc found seenUrls)
  then show ?case by simp
next
  case (2 maxResults doc selectors rest found seenUrls)
  then show ?case
    by (simp add: processContainers_linksSeen)
qed

lemma processAnchors_linksSeen:
  "linksSeen acc \<Longrightarrow> linksSeen (processAnchors maxResults els acc)"
proof (induction maxResults els acc rule: processAnchors.induct)
  case (1 maxResults found seenUrls)
  then show ?case by simp
next
  case (2 maxResults el rest found seenUrls)
  then show ?case
    by (auto simp: Let_def linksSeen_push)
qed

lemma slice0_prefix: "\<exists>k. slice0 xs n = take k xs"
  by (auto simp: slice0_def)

lemma slice0_length: "0 \<le> n \<Longrightarrow> int (length (slice0 xs n)) \<le> n"
  by (simp add: slice0_def)

lemma extractResults_distinct: "distinct (map link (extractResults doc maxResults))"
proof -
  have start: "linksSeen ([], {})" by (simp add: linksSeen_def)
  obtain found seenUrls where a:
    "processSelectorSets maxResults doc selectorSets ([], {}) = (found, seenUrls)"
    by (cases "processSelectorSets maxResults doc selectorSets ([], {})") auto
  have ia: "linksSeen (found, seenUrls)"
    using processSelectorSets_linksSeen [OF start, of maxResults doc selectorSets] a by simp
  obtain found' seenUrls' where b:
    "(if int (length found) < maxResults
      then processAnchors maxResults (httpAnchors doc) (found, seenUrls)
      else (found, seenUrls)) = (found', seenUrls')"
    by (cases "(if int (length found) < maxResults
      then processAnchors maxResults (httpAnchors doc) (found, seenUrls)
      else (found, seenUrls))") auto
  have ib: "linksSeen (found', seenUrls')"
    using processAnchors_linksSeen [OF ia, of maxResults "httpAnchors doc"] ia b
    by (auto split: if_splits)
  have e: "extractResults doc maxResults = slice0 found' maxResults"
    using a b by (simp add: extractResults_def)
  obtain k where "slice0 found' maxResults = take k found'"
    using slice0_prefix by blast
  then have "map link (extractResults doc maxResults) = take k (map link found')"
    using e by (simp add: take_map)
  moreover have "distinct (map link found')" using ib by (simp add: linksSeen_def)
  ultimately show ?thesis by (simp add: distinct_take)
qed

lemma extractResults_length:
  "0 \<le> maxResults \<Longrightarrow> int (length (extractResults doc maxResults)) \<le> maxResults"
  by (simp add: extractResults_def slice0_length split: prod.splits)

text \<open>With a limit of zero or below, nothing is collected.\<close>

lemma extractResults_nonpositive: "maxResults \<le> 0 \<Longrightarrow> extractResults doc maxResults = []"
  by (simp add: extractResults_def selectorSets_def slice0_def)

text \<open>
  Claim C1. For every results page and every limit (an integer that is not negative;
  the request model asks for a limit of at least 1), the list that the extractor returns
  has at most \<open>limit\<close> entries, and the links of its entries are pairwise distinct,
  across the selector sets and the supplementary anchor pass.
\<close>

theorem extractResults_bounded_distinct:
  assumes "0 \<le> limit"
  shows "int (length (extractResults doc limit)) \<le> limit \<and>
         distinct (map link (extractResults doc limit))"
  using assms extractResults_length extractResults_distinct by blast

theorem extractResults_bounded_distinct_witness:
  "(0::int) \<le> 2 \<and> int (length (extractResults sampleDocument 2)) \<le> 2 \<and>
   distinct (map link (extractResults sampleDocument 2))"
  using extractResults_bounded_distinct [of 2 sampleDocument] by simp

text \<open>
  On the sample page: the duplicate link is skipped, the limit cuts the cascade, and
  with room left the anchor pass adds the one link that is new and not the engine's.
\<close>

lemma extractResults_sample:
  "map link (extractResults sampleDocument 2) = [''https://a.example/'', ''https://b.example/'']"
  "map link (extractResults sampleDocument 10) =
     [''https://a.example/'', ''https://b.example/'', ''https://c.example/'']"
  by (simp_all add: extractResults_def sampleDocument_def sampleContainer_def sampleAnchor_def
      selectorSets_def alternativeSnippetSelectors_def findLink_def findSnippet_def
      startsWith_def slice0_def str_trim_def isWhiteSpace_def Let_def)


section \<open>Properties of the fingerprint side file\<close>

text \<open>
  Claim C9. The side-file path is meant to be the state-file path with its trailing
  \<^verbatim>\<open>.json\<close> replaced by \<^verbatim>\<open>-fingerprint.json\<close>. On a state-file path with an
  earlier \<^verbatim>\<open>.json\<close> the code replaces that first occurrence and leaves the suffix
  alone.
\<close>

theorem fingerprintFile_replaces_first_occurrence:
  "fingerprintFile ''./run.json.d/browser-state.json'' =
     ''./run-fingerprint.json.d/browser-state.json'' \<and>
   fingerprintFile_trailing ''./run.json.d/browser-state.json'' =
     ''./run.json.d/browser-state-fingerprint.json''"
  by (simp add: fingerprintFile_def fingerprintFile_trailing_def startsWith_def endsWith_def)

text \<open>On the default state file both agree.\<close>

lemma fingerprintFile_default:
  "fingerprintFile ''./browser-state.json'' = ''./browser-state-fingerprint.json''"
  "fingerprintFile_trailing ''./browser-state.json'' = ''./browser-state-fingerprint.json''"
  by (simp_all add: fingerprintFile_def fingerprintFile_trailing_def startsWith_def endsWith_def)


section \<open>Properties of the block checks\<close>

text \<open>\<open>str_includes\<close> is containment as a contiguous substring.\<close>

lemma str_includes_iff: "str_includes s p \<longleftrightarrow> (\<exists>a b. s = a @ p @ b)"
proof (induction s)
  case Nil
  then show ?case by auto
next
  case (Cons c cs)
  show ?case
  proof
    assume "str_includes (c # cs) p"
    then consider "startsWith (c # cs) p" | "str_includes cs p" by auto
    then show "\<exists>a b. c # cs = a @ p @ b"
    proof cases
      case 1
      then have "c # cs = [] @ p @ drop (length p) (c # cs)"
        unfolding startsWith_def by (metis append_Nil append_take_drop_id)
      then show ?thesis by blast
    next
      case 2
      then obtain a b where "cs = a @ p @ b" using Cons.IH by blast
      then have "c # cs = (c # a) @ p @ b" by simp
      then show ?thesis by blast
    qed
  next
    assume "\<exists>a b. c # cs = a @ p @ b"
    then obtain a b where ab: "c # cs = a @ p @ b" by blast
    show "str_includes (c # cs) p"
    proof (cases a)
      case Nil
      then have "startsWith (c # cs) p" using ab by (simp add: startsWith_def)
      then show ?thesis by simp
    next
      case (Cons x xs)
      then have "cs = xs @ p @ b" using ab by simp
      then have "str_includes cs p" using Cons.IH by blast
      then show ?thesis by simp
    qed
  qed
qed

text \<open>
  Claim C7, as the code has it. The check after navigation is true exactly when the
  page URL, or the URL of the navigation response when there is one, contains one of
  the five fixed substrings. The checks after the query is sent and after the wait for
  results are true exactly when the page URL contains one of them; they read no
  response URL, and are the first check with the response left out. Each is a function
  of the URLs it reads.
\<close>

theorem block_checks:
  "(isBlockedPage currentUrl response \<longleftrightarrow>
      (\<exists>pattern\<in>set sorryPatterns.
          (\<exists>a b. currentUrl = a @ pattern @ b) \<or>
          (\<exists>responseUrl a b. response = Some responseUrl \<and> responseUrl = a @ pattern @ b))) \<and>
   (isBlockedAfterSearch searchUrl \<longleftrightarrow>
      (\<exists>pattern\<in>set sorryPatterns. \<exists>a b. searchUrl = a @ pattern @ b)) \<and>
   isBlockedAfterSearch searchUrl = isBlockedPage searchUrl None \<and>
   isBlockedDuringResults searchUrl = isBlockedAfterSearch searchUrl"
proof -
  have one: "isBlockedPage currentUrl response \<longleftrightarrow>
      (\<exists>pattern\<in>set sorryPatterns.
          (\<exists>a b. currentUrl = a @ pattern @ b) \<or>
          (\<exists>responseUrl a b. response = Some responseUrl \<and> responseUrl = a @ pattern @ b))"
    by (cases response) (auto simp: isBlockedPage_def list_ex_iff str_includes_iff)
  have two: "isBlockedAfterSearch searchUrl \<longleftrightarrow>
      (\<exists>pattern\<in>set sorryPatterns. \<exists>a b. searchUrl = a @ pattern @ b)"
    by (simp add: isBlockedAfterSearch_def list_ex_iff str_includes_iff)
  have three: "isBlockedAfterSearch searchUrl = isBlockedPage searchUrl None"
    by (simp add: isBlockedAfterSearch_def isBlockedPage_def)
  have four: "isBlockedDuringResults searchUrl = isBlockedAfterSearch searchUrl"
    by (simp add: isBlockedAfterSearch_def isBlockedDuringResults_def)
  show ?thesis using one two three four by blast
qed

theorem block_checks_witness:
  "isBlockedPage ''https://www.google.com/search?q=x''
     (Some ''https://www.google.com/sorry/index?continue=x'') \<and>
   isBlockedAfterSearch ''https://www.google.com/sorry/index?continue=x'' \<and>
   isBlockedDuringResults ''https://www.google.com/sorry/index?continue=x'' \<and>
   \<not> isBlockedPage ''https://www.google.com/search?q=x'' (Some ''https://www.google.com/'')"
  using block_checks [of "''https://www.google.com/search?q=x''"
      "Some ''https://www.google.com/sorry/index?continue=x''"
      "''https://www.google.com/sorry/index?continue=x''"]
  by (simp add: isBlockedPage_def isBlockedAfterSearch_def isBlockedDuringResults_def
      sorryPatterns_def startsWith_def)

text \<open>
  Claim C7, as the specification has it, asks for the same check over both URLs at all
  three checkpoints. On a page URL without a pattern and a response URL with one, the
  first check is true and the two later checks, which do not read the response, are
  false.
\<close>

theorem later_checks_ignore_response_counterexample:
  "isBlockedPage ''https://www.google.com/search?q=x''
     (Some ''https://www.google.com/sorry/index?continue=x'') \<and>
   \<not> isBlockedAfterSearch ''https://www.google.com/search?q=x'' \<and>
   \<not> isBlockedDuringResults ''https://www.google.com/search?q=x''"
  by (simp add: isBlockedPage_def isBlockedAfterSearch_def isBlockedDuringResults_def
      sorryPatterns_def startsWith_def)

text \<open>
  The third check is made only when no results container appeared: when the wait finds
  one, the attempt goes on to the extraction without reading the URL.
\<close>

lemma awaitResults_found:
  assumes "waitForResults pg searchResultSelectors (snd (perform (PageUrl pg) s)) =
             (Inr True, s')"
  shows "awaitResults cl headless b p co ctx pg s = extractAndReturn cl b p ctx pg s'"
  using assms by (simp add: awaitResults_def bind_def perform_def)


section \<open>Properties of the fingerprint resolution\<close>

text \<open>
  Claim C5. When the saved state holds a fingerprint whose device name is not empty and
  is a key of the registry of presets, the resolution gives that device name, its
  preset, and the persisted locale, time zone, colour scheme, reduced motion and forced
  colours; the world, and with it the saved fingerprint, is unchanged.
\<close>

theorem recognized_fingerprint_reused:
  assumes "fingerprint (savedState s) = Some fp"
    and "fp_deviceName fp \<noteq> []"
    and "devices host (fp_deviceName fp) = Some preset"
  shows "buildContextOptions host userLocale s =
           (Inr (fp_deviceName fp,
                 \<lparr>co_device = Some preset, co_locale = fp_locale fp,
                  co_timezoneId = fp_timezoneId fp, co_colorScheme = fp_colorScheme fp,
                  co_reducedMotion = fp_reducedMotion fp,
                  co_forcedColors = fp_forcedColors fp\<rparr>), s)"
  using assms
  by (simp add: buildContextOptions_def getDeviceConfig_def bind_def getSavedState_def
      return_def)

theorem recognized_fingerprint_reused_witness:
  "fingerprint (savedState (worldWith (Some safariFingerprint))) = Some safariFingerprint \<and>
   fp_deviceName safariFingerprint \<noteq> [] \<and>
   devices sampleHost (fp_deviceName safariFingerprint) = Some (desktopPreset ''Desktop Safari'') \<and>
   buildContextOptions sampleHost ''en-US'' (worldWith (Some safariFingerprint)) =
     (Inr (''Desktop Safari'',
           \<lparr>co_device = Some (desktopPreset ''Desktop Safari''), co_locale = ''de-DE'',
            co_timezoneId = ''Europe/Berlin'', co_colorScheme = Dark,
            co_reducedMotion = Reduce, co_forcedColors = NoForcedColors\<rparr>),
      worldWith (Some safariFingerprint))"
proof -
  have h1: "fingerprint (savedState (worldWith (Some safariFingerprint))) =
      Some safariFingerprint"
    by (simp add: worldWith_def)
  have h2: "fp_deviceName safariFingerprint \<noteq> []"
    by (simp add: safariFingerprint_def)
  have h3: "devices sampleHost (fp_deviceName safariFingerprint) =
      Some (desktopPreset ''Desktop Safari'')"
    by (simp add: sampleHost_def safariFingerprint_def deviceList_def)
  show ?thesis
    using recognized_fingerprint_reused [OF h1 h2 h3, of "''en-US''"] h1 h2 h3
    by (simp add: safariFingerprint_def)
qed

text \<open>
  Claim C6, as the code has it. When the saved state holds a fingerprint whose device
  name is empty or is not a key of the registry, nothing is raised and nothing is read
  from the host: the device is drawn from the list of desktop devices, the persisted
  locale, time zone, colour scheme, reduced motion and forced colours are used, and the
  saved fingerprint stays as it was (the only change of the world is the call of
  \<^verbatim>\<open>Math.random\<close>).
\<close>

theorem unrecognized_fingerprint_kept:
  assumes "fingerprint (savedState s) = Some fp"
    and "fp_deviceName fp = [] \<or> devices host (fp_deviceName fp) = None"
  shows "buildContextOptions host userLocale s =
           (let randomDevice =
                  deviceList ! (r_random (replies s (length (trace s))) mod length deviceList)
            in (Inr (randomDevice,
                 \<lparr>co_device = devices host randomDevice, co_locale = fp_locale fp,
                  co_timezoneId = fp_timezoneId fp, co_colorScheme = fp_colorScheme fp,
                  co_reducedMotion = fp_reducedMotion fp,
                  co_forcedColors = fp_forcedColors fp\<rparr>),
                s\<lparr>trace := trace s @ [MathRandom]\<rparr>))"
  using assms
  by (auto simp: buildContextOptions_def getDeviceConfig_def randomDevice_def randomIndex_def
      perform_def bind_def getSavedState_def return_def Let_def)

theorem unrecognized_fingerprint_kept_witness:
  "fingerprint (savedState (worldWith (Some staleFingerprint))) = Some staleFingerprint \<and>
   (fp_deviceName staleFingerprint = [] \<or>
    devices sampleHost (fp_deviceName staleFingerprint) = None) \<and>
   buildContextOptions sampleHost ''en-US'' (worldWith (Some staleFingerprint)) =
     (Inr (''Desktop Chrome'',
           \<lparr>co_device = Some (desktopPreset ''Desktop Chrome''), co_locale = ''fr-FR'',
            co_timezoneId = ''Europe/Paris'', co_colorScheme = Dark,
            co_reducedMotion = Reduce, co_forcedColors = Active\<rparr>),
      (worldWith (Some staleFingerprint))\<lparr>trace := [MathRandom]\<rparr>)"
proof -
  have h1: "fingerprint (savedState (worldWith (Some staleFingerprint))) =
      Some staleFingerprint"
    by (simp add: worldWith_def)
  have h2: "fp_deviceName staleFingerprint = [] \<or>
      devices sampleHost (fp_deviceName staleFingerprint) = None"
    by (simp add: sampleHost_def staleFingerprint_def deviceList_def)
  show ?thesis
    using unrecognized_fingerprint_kept [OF h1 h2, of "''en-US''"] h1 h2
    by (simp add: staleFingerprint_def worldWith_def quietReply_def deviceList_def
        sampleHost_def Let_def)
qed

text \<open>
  Claim C6, as the specification has it, asks for the unrecognized profile to be
  treated as absent and a fresh one to be made from the host. On the sample host the
  profile made from the host has the locale \<^verbatim>\<open>en-US\<close>; with the stale profile saved,
  the context gets the persisted \<^verbatim>\<open>fr-FR\<close> and the stale profile is still the saved
  fingerprint afterwards.
\<close>

theorem stale_fingerprint_not_regenerated_counterexample:
  "fp_locale (getHostMachineConfig sampleHost (Some ''en-US'')) = ''en-US'' \<and>
   fst (buildContextOptions sampleHost ''en-US'' (worldWith (Some staleFingerprint))) =
     Inr (''Desktop Chrome'',
          \<lparr>co_device = Some (desktopPreset ''Desktop Chrome''), co_locale = ''fr-FR'',
           co_timezoneId = ''Europe/Paris'', co_colorScheme = Dark,
           co_reducedMotion = Reduce, co_forcedColors = Active\<rparr>) \<and>
   fingerprint (savedState (snd (buildContextOptions sampleHost ''en-US''
       (worldWith (Some staleFingerprint))))) = Some staleFingerprint \<and>
   fst (buildContextOptions sampleHost ''en-US'' (worldWith (Some staleFingerprint))) \<noteq>
   fst (buildContextOptions sampleHost ''en-US'' (worldWith None))"
  by (simp add: buildContextOptions_def getDeviceConfig_def randomDevice_def randomIndex_def
      perform_def bind_def getSavedState_def setSavedState_def return_def Let_def
      getHostMachineConfig_def orElse_def staleFingerprint_def worldWith_def quietReply_def
      deviceList_def sampleHost_def)

text \<open>
  Without a saved fingerprint the profile is made from the host and stored in the saved
  state.
\<close>

lemma absent_fingerprint_generated:
  assumes "fingerprint (savedState s) = None"
  shows "fingerprint (savedState (snd (buildContextOptions host userLocale s))) =
           Some (getHostMachineConfig host (Some userLocale))"
  using assms
  by (auto simp: buildContextOptions_def getDeviceConfig_def randomDevice_def randomIndex_def
      perform_def bind_def getSavedState_def setSavedState_def return_def Let_def)



section \<open>The caller's browser is never closed\<close>

lemma owns_mono: "owns tr h \<Longrightarrow> owns (tr @ [c]) h"
  by (induction tr h rule: owns.induct) (auto simp: nth_append)

lemma owns_new:
  "isLaunch c \<Longrightarrow> owns (tr @ [c]) (HB (Launched (length tr)))"
  "isNewContext c \<Longrightarrow> owns (tr @ [c]) (HC (Context (length tr)))"
  "isNewPage c \<Longrightarrow> owns (tr @ [c]) (HP (Page (length tr)))"
  by simp_all

lemma Inv_step:
  assumes "Inv H s" and "case closes c of None \<Rightarrow> True | Some h \<Rightarrow> h \<in> H"
  shows "Inv H (s\<lparr>trace := trace s @ [c]\<rparr>)"
  using assms
  by (auto simp: Inv_def closesOnlyOwn_def list_all_iff owns_mono split: option.splits)

lemma keepsD: "keeps H m \<Longrightarrow> Inv H s \<Longrightarrow> Inv H (snd (m s))"
  by (simp add: keeps_def)

lemma keeps_return: "keeps H (return x)"
  by (simp add: keeps_def return_def)

lemma keeps_throw: "keeps H (throw e)"
  by (simp add: keeps_def throw_def)

lemma keeps_bind: "keeps H m \<Longrightarrow> (\<And>x. keeps H (f x)) \<Longrightarrow> keeps H (bind m f)"
  unfolding keeps_def bind_def
  by (auto split: prod.splits sum.splits)

lemma keeps_tryCatch: "keeps H m \<Longrightarrow> (\<And>e. keeps H (h e)) \<Longrightarrow> keeps H (tryCatch m h)"
  unfolding keeps_def tryCatch_def
  by (auto split: prod.splits sum.splits)

lemma keeps_if:
  "(c \<Longrightarrow> keeps H a) \<Longrightarrow> (\<not> c \<Longrightarrow> keeps H b) \<Longrightarrow> keeps H (if c then a else b)"
  by simp

lemma keeps_pair: "(\<And>a b. keeps H (f a b)) \<Longrightarrow> keeps H (case x of (a, b) \<Rightarrow> f a b)"
  by (cases x) simp

lemma keeps_option:
  "keeps H a \<Longrightarrow> (\<And>x. keeps H (f x)) \<Longrightarrow> keeps H (case v of None \<Rightarrow> a | Some x \<Rightarrow> f x)"
  by (cases v) simp_all

lemma keeps_perform:
  "(case closes c of None \<Rightarrow> True | Some h \<Rightarrow> h \<in> H) \<Longrightarrow> keeps H (perform c)"
  by (simp add: keeps_def perform_def Inv_step)

lemma keeps_call:
  "(case closes c of None \<Rightarrow> True | Some h \<Rightarrow> h \<in> H) \<Longrightarrow> keeps H (call c)"
  unfolding call_def
  by (intro keeps_bind keeps_perform keeps_option keeps_throw keeps_return)

lemma keeps_getSavedState: "keeps H getSavedState"
  by (simp add: keeps_def getSavedState_def)

lemma keeps_setSavedState: "keeps H (setSavedState v)"
  by (simp add: keeps_def setSavedState_def Inv_def)

lemma keeps_randomIndex: "keeps H (randomIndex n)"
  unfolding randomIndex_def by (intro keeps_bind keeps_perform keeps_return) simp

lemma keeps_getRandomDelay: "keeps H (getRandomDelay lo hi)"
  unfolding getRandomDelay_def by (intro keeps_bind keeps_randomIndex keeps_return)

text \<open>
  A handle that a call has just created is owned in what follows: the three rules for
  a launch, a new context and a new page.
\<close>

lemma keeps_bind_launch:
  assumes "\<And>b. keeps (insert (HB b) H) (f b)"
  shows "keeps H (bind (launch headless) f)"
  unfolding keeps_def
proof (intro allI impI)
  fix s assume inv: "Inv H s"
  let ?s' = "s\<lparr>trace := trace s @ [Launch headless]\<rparr>"
  let ?b = "Launched (length (trace s))"
  have step: "Inv H ?s'" using inv by (rule Inv_step) simp
  show "Inv H (snd (bind (launch headless) f s))"
  proof (cases "throws (replies s (length (trace s)))")
    case (Some m)
    then have "bind (launch headless) f s = (Inl (Error m), ?s')"
      by (simp add: bind_def launch_def nextIndex_def call_def perform_def throw_def)
    then show ?thesis using step by simp
  next
    case None
    then have run: "bind (launch headless) f s = f ?b ?s'"
      by (simp add: bind_def launch_def nextIndex_def call_def perform_def return_def)
    have "Inv (insert (HB ?b) H) ?s'"
      using step owns_new(1) [of "Launch headless" "trace s"] by (simp add: Inv_def)
    then have "Inv (insert (HB ?b) H) (snd (f ?b ?s'))"
      using assms [of ?b] by (simp add: keeps_def)
    then show ?thesis using run by (simp add: Inv_def)
  qed
qed

lemma keeps_bind_newContext:
  assumes "\<And>c. keeps (insert (HC c) H) (f c)"
  shows "keeps H (bind (newContext b co st) f)"
  unfolding keeps_def
proof (intro allI impI)
  fix s assume inv: "Inv H s"
  let ?s' = "s\<lparr>trace := trace s @ [NewContext b co st]\<rparr>"
  let ?c = "Context (length (trace s))"
  have step: "Inv H ?s'" using inv by (rule Inv_step) simp
  show "Inv H (snd (bind (newContext b co st) f s))"
  proof (cases "throws (replies s (length (trace s)))")
    case (Some m)
    then have "bind (newContext b co st) f s = (Inl (Error m), ?s')"
      by (simp add: bind_def newContext_def nextIndex_def call_def perform_def throw_def)
    then show ?thesis using step by simp
  next
    case None
    then have run: "bind (newContext b co st) f s = f ?c ?s'"
      by (simp add: bind_def newContext_def nextIndex_def call_def perform_def return_def)
    have "Inv (insert (HC ?c) H) ?s'"
      using step owns_new(2) [of "NewContext b co st" "trace s"] by (simp add: Inv_def)
    then have "Inv (insert (HC ?c) H) (snd (f ?c ?s'))"
      using assms [of ?c] by (simp add: keeps_def)
    then show ?thesis using run by (simp add: Inv_def)
  qed
qed

lemma keeps_bind_newPage:
  assumes "\<And>p. keeps (insert (HP p) H) (f p)"
  shows "keeps H (bind (newPage c) f)"
  unfolding keeps_def
proof (intro allI impI)
  fix s assume inv: "Inv H s"
  let ?s' = "s\<lparr>trace := trace s @ [NewPage c]\<rparr>"
  let ?p = "Page (length (trace s))"
  have step: "Inv H ?s'" using inv by (rule Inv_step) simp
  show "Inv H (snd (bind (newPage c) f s))"
  proof (cases "throws (replies s (length (trace s)))")
    case (Some m)
    then have "bind (newPage c) f s = (Inl (Error m), ?s')"
      by (simp add: bind_def newPage_def nextIndex_def call_def perform_def throw_def)
    then show ?thesis using step by simp
  next
    case None
    then have run: "bind (newPage c) f s = f ?p ?s'"
      by (simp add: bind_def newPage_def nextIndex_def call_def perform_def return_def)
    have "Inv (insert (HP ?p) H) ?s'"
      using step owns_new(3) [of "NewPage c" "trace s"] by (simp add: Inv_def)
    then have "Inv (insert (HP ?p) H) (snd (f ?p ?s'))"
      using assms [of ?p] by (simp add: keeps_def)
    then show ?thesis using run by (simp add: Inv_def)
  qed
qed

lemmas keeps_rules =
  keeps_bind_launch keeps_bind_newContext keeps_bind_newPage
  keeps_bind keeps_return keeps_throw keeps_tryCatch keeps_if keeps_pair keeps_option
  keeps_call keeps_perform keeps_getSavedState keeps_setSavedState keeps_randomIndex
  keeps_getRandomDelay

text \<open>
  The steps of an attempt. A step that closes the browser of the attempt needs it to be
  owned, unless the browser was provided: then the step does not close it.
\<close>

lemma keeps_restartHeaded:
  "browserWasProvided \<or> HB b \<in> H \<Longrightarrow> HC ctx \<in> H \<Longrightarrow> HP pg \<in> H \<Longrightarrow>
   keeps H (restartHeaded b browserWasProvided co ctx pg)"
  unfolding restartHeaded_def
  by (intro keeps_rules) auto

lemma keeps_saveState: "keeps H (saveState cl ctx)"
  unfolding saveState_def by (intro keeps_rules) simp_all

lemma keeps_closeUnlessProvided:
  "browserWasProvided \<or> HB b \<in> H \<Longrightarrow> keeps H (closeUnlessProvided b browserWasProvided)"
  unfolding closeUnlessProvided_def by (intro keeps_rules) auto

lemma keeps_findSearchInput: "keeps H (findSearchInput pg sels)"
  by (induction sels) (auto intro!: keeps_rules)

lemma keeps_waitForResults: "keeps H (waitForResults pg sels)"
  by (induction sels) (auto intro!: keeps_rules)

lemma keeps_submitQuery: "keeps H (submitQuery cl pg)"
  unfolding submitQuery_def by (intro keeps_rules keeps_findSearchInput) simp_all

lemma keeps_selectDomain: "keeps H selectDomain"
  unfolding selectDomain_def Let_def by (intro keeps_rules)

lemma keeps_extractAndReturn:
  "browserWasProvided \<or> HB b \<in> H \<Longrightarrow>
   keeps H (extractAndReturn cl b browserWasProvided ctx pg)"
  unfolding extractAndReturn_def
  by (intro keeps_rules keeps_saveState keeps_closeUnlessProvided) simp_all

lemma keeps_awaitResults:
  "browserWasProvided \<or> HB b \<in> H \<Longrightarrow> HC ctx \<in> H \<Longrightarrow> HP pg \<in> H \<Longrightarrow>
   keeps H (awaitResults cl headless b browserWasProvided co ctx pg)"
  unfolding awaitResults_def
  by (intro keeps_rules keeps_waitForResults keeps_restartHeaded keeps_extractAndReturn)
    simp_all

lemma keeps_enterQuery:
  "browserWasProvided \<or> HB b \<in> H \<Longrightarrow> HC ctx \<in> H \<Longrightarrow> HP pg \<in> H \<Longrightarrow>
   keeps H (enterQuery cl headless b browserWasProvided co ctx pg)"
  unfolding enterQuery_def
  by (intro keeps_rules keeps_submitQuery keeps_restartHeaded keeps_awaitResults) simp_all

lemma keeps_searchTry:
  "browserWasProvided \<or> HB b \<in> H \<Longrightarrow> HC ctx \<in> H \<Longrightarrow> HP pg \<in> H \<Longrightarrow>
   keeps H (searchTry cl headless b browserWasProvided co ctx pg)"
  unfolding searchTry_def
  by (intro keeps_rules keeps_selectDomain keeps_restartHeaded keeps_enterQuery) simp_all

lemma keeps_searchCatch:
  "browserWasProvided \<or> HB b \<in> H \<Longrightarrow> keeps H (searchCatch cl b browserWasProvided ctx e)"
  unfolding searchCatch_def
  by (intro keeps_rules keeps_saveState keeps_closeUnlessProvided) simp_all

lemma keeps_randomDevice: "keeps H (randomDevice host)"
  unfolding randomDevice_def Let_def by (intro keeps_rules)

lemma keeps_getDeviceConfig: "keeps H (getDeviceConfig host)"
  unfolding getDeviceConfig_def by (intro keeps_rules keeps_randomDevice)

lemma keeps_buildContextOptions: "keeps H (buildContextOptions host userLocale)"
  unfolding buildContextOptions_def Let_def by (intro keeps_rules keeps_getDeviceConfig)

lemma keeps_openPage:
  assumes "\<And>co ctx pg. keeps (insert (HP pg) (insert (HC ctx) H)) (rest co ctx pg)"
  shows "keeps H (openPage cl b rest)"
  unfolding openPage_def
  by (intro keeps_rules keeps_buildContextOptions assms) simp_all

lemma keeps_searchAttempt: "keeps H (searchAttempt cl headless)"
  unfolding searchAttempt_def
  by (intro keeps_rules keeps_openPage keeps_searchTry keeps_searchCatch) simp_all

lemma keeps_performSearch: "keeps H (performSearch cl headless)"
  unfolding keeps_def
proof (intro allI impI)
  fix s
  show "Inv H s \<Longrightarrow> Inv H (snd (performSearch cl headless s))"
  proof (induction cl headless s rule: performSearch.induct)
    case (1 cl headless s)
    have att: "Inv H (snd (searchAttempt cl headless s))"
      using keeps_searchAttempt [of H cl headless] "1.prems" by (simp add: keeps_def)
    show ?case
    proof (cases "searchAttempt cl headless s")
      case (Pair r s')
      then have inv': "Inv H s'" using att by simp
      show ?thesis
      proof (cases r)
        case (Inl e)
        then show ?thesis using Pair inv' by (simp add: performSearch.simps)
      next
        case (Inr out)
        show ?thesis
        proof (cases out)
          case (Return response)
          then show ?thesis using Pair Inr inv' by (simp add: performSearch.simps)
        next
          case Rerun
          then have "Inv H (snd (performSearch cl False s'))"
            using "1.IH" [of r s' out] Pair Inr inv' by simp
          then show ?thesis
            using Pair Inr Rerun by (simp add: performSearch.simps [of cl headless])
        qed
      qed
    qed
  qed
qed

lemma keeps_loadSavedState: "keeps H (loadSavedState stateFile fpFile)"
  unfolding loadSavedState_def by (intro keeps_rules) simp_all

lemma Inv_initialWorld: "Inv {} (initialWorld env)"
  by (simp add: Inv_def initialWorld_def closesOnlyOwn_def)

lemma googleSearch_Inv: "Inv {} (snd (googleSearch env host q options existingBrowser))"
  unfolding googleSearch_def Let_def
  by (rule keepsD [OF _ Inv_initialWorld])
    (intro keeps_bind keeps_loadSavedState keeps_performSearch)

lemma closesOnlyOwn_Shared: "closesOnlyOwn tr \<Longrightarrow> BrowserClose Shared \<notin> set tr"
  by (auto simp: closesOnlyOwn_def list_all_iff)

text \<open>
  Claim C4. Whatever the engine, the file system and the random source answer (so on
  the paths of success, of failure and of escalation alike), a run of \<^verbatim>\<open>googleSearch\<close>
  with the caller's browser never closes that browser; every browser it closes is one
  that it launched itself, every context it closes is one that it created with
  \<^verbatim>\<open>newContext\<close>, and every page it closes is one that it created with \<^verbatim>\<open>newPage\<close>.
\<close>

theorem shared_browser_never_closed:
  "BrowserClose Shared \<notin> set (trace (snd (googleSearch env host q options (Some Shared)))) \<and>
   closesOnlyOwn (trace (snd (googleSearch env host q options (Some Shared))))"
proof -
  have "closesOnlyOwn (trace (snd (googleSearch env host q options (Some Shared))))"
    using googleSearch_Inv [of env host q options "Some Shared"] by (simp add: Inv_def)
  then show ?thesis using closesOnlyOwn_Shared by blast
qed

text \<open>
  The witness is the run with the caller's browser in which the first check finds a
  verification page: the page, the context and the temporary headed browser are closed,
  the caller's browser is not.
\<close>

theorem shared_browser_never_closed_witness:
  "BrowserClose Shared \<notin>
     set (trace (snd (googleSearch blockedAfterNavigation sampleHost ''x'' noOptions
                        (Some Shared)))) \<and>
   closesOnlyOwn
     (trace (snd (googleSearch blockedAfterNavigation sampleHost ''x'' noOptions
                    (Some Shared)))) \<and>
   filter (\<lambda>c. closes c \<noteq> None \<or> isLaunch c)
     (trace (snd (googleSearch blockedAfterNavigation sampleHost ''x'' noOptions
                    (Some Shared)))) =
     [PageClose (Page 6), ContextClose (Context 4), Launch False, BrowserClose (Launched 13)]"
proof -
  have run: "filter (\<lambda>c. closes c \<noteq> None \<or> isLaunch c)
     (trace (snd (googleSearch blockedAfterNavigation sampleHost ''x'' noOptions
                    (Some Shared)))) =
     [PageClose (Page 6), ContextClose (Context 4), Launch False, BrowserClose (Launched 13)]"
    by code_simp
  show ?thesis
    using shared_browser_never_closed [of blockedAfterNavigation sampleHost "''x''" noOptions]
      run
    by blast
qed

text \<open>The second part holds for every run, with or without a caller's browser.\<close>

lemma googleSearch_closesOnlyOwn:
  "closesOnlyOwn (trace (snd (googleSearch env host q options existingBrowser)))"
  using googleSearch_Inv [of env host q options existingBrowser] by (simp add: Inv_def)



section \<open>Properties of the failure paths\<close>

text \<open>A \<^verbatim>\<open>try\<close> block whose \<^verbatim>\<open>catch\<close> only logs does not throw.\<close>

lemma tryCatch_swallow: "fst (tryCatch m (\<lambda>e. return ()) s) = Inr ()"
  by (cases "m s") (auto simp: tryCatch_def return_def split: sum.splits)

lemma saveState_completes: "fst (saveState cl ctx s) = Inr ()"
  unfolding saveState_def by (rule tryCatch_swallow)

text \<open>Laws of the monad, and the continuation of \<open>openPage\<close>.\<close>

lemma bind_assoc: "bind (bind m f) g = bind m (\<lambda>x. bind (f x) g)"
  by (auto simp: bind_def fun_eq_iff split: prod.splits sum.splits)

lemma bind_return: "bind (return x) f = f x"
  by (simp add: bind_def return_def)

lemma bind_pair: "bind (case x of (a, b) \<Rightarrow> f a b) g = (case x of (a, b) \<Rightarrow> bind (f a b) g)"
  by (cases x) simp

lemma openPage_bind: "bind (openPage cl b rest) g = openPage cl b (\<lambda>co ctx pg. bind (rest co ctx pg) g)"
  by (simp add: openPage_def bind_assoc bind_pair)

text \<open>An attempt is its statements before the \<^verbatim>\<open>try\<close> block, then the \<^verbatim>\<open>try\<close> statement.\<close>

lemma searchAttempt_split:
  "searchAttempt cl headless =
     bind (enterTry cl headless) (\<lambda>(b, p, co, ctx, pg).
       tryCatch (searchTry cl headless b p co ctx pg) (searchCatch cl b p ctx))"
  by (cases "cl_existingBrowser cl")
    (simp_all add: searchAttempt_def enterTry_def openPage_bind bind_assoc bind_return)

lemma htmlAttempt_split:
  "htmlAttempt cl saveToFile outputPath strip headless =
     bind (htmlEnterTry cl headless) (\<lambda>(b, ctx, pg).
       tryCatch (htmlTry cl saveToFile outputPath strip headless b ctx pg) (htmlCatch cl b ctx))"
  by (simp add: htmlAttempt_def htmlEnterTry_def openPage_bind bind_assoc bind_return)

text \<open>What \<^verbatim>\<open>performSearch\<close> and \<^verbatim>\<open>performSearchAndGetHtml\<close> make of one attempt.\<close>

lemma performSearch_Return:
  "fst (searchAttempt cl headless s) = Inr (Return response) \<Longrightarrow>
   fst (performSearch cl headless s) = Inr response"
  by (cases "searchAttempt cl headless s") (simp add: performSearch.simps)

lemma performSearch_Inl:
  "fst (searchAttempt cl headless s) = Inl e \<Longrightarrow> fst (performSearch cl headless s) = Inl e"
  by (cases "searchAttempt cl headless s") (simp add: performSearch.simps)

lemma performSearch_Rerun:
  "fst (searchAttempt cl headless s) = Inr Rerun \<Longrightarrow>
   performSearch cl headless s = performSearch cl False (snd (searchAttempt cl headless s))"
  by (cases "searchAttempt cl headless s") (simp add: performSearch.simps [of cl headless])

lemma performSearchAndGetHtml_Inl:
  "fst (htmlAttempt cl saveToFile outputPath strip headless s) = Inl e \<Longrightarrow>
   fst (performSearchAndGetHtml cl saveToFile outputPath strip headless s) = Inl e"
  by (cases "htmlAttempt cl saveToFile outputPath strip headless s")
    (simp add: performSearchAndGetHtml.simps)

lemma performSearchAndGetHtml_Rerun:
  "fst (htmlAttempt cl saveToFile outputPath strip headless s) = Inr Rerun \<Longrightarrow>
   performSearchAndGetHtml cl saveToFile outputPath strip headless s =
   performSearchAndGetHtml cl saveToFile outputPath strip False
     (snd (htmlAttempt cl saveToFile outputPath strip headless s))"
  by (cases "htmlAttempt cl saveToFile outputPath strip headless s")
    (simp add: performSearchAndGetHtml.simps [of cl saveToFile outputPath strip headless])

lemma performSearch_attemptAt:
  assumes "attemptAt cl useHeadless s0 headless s"
  shows "fst (searchAttempt cl headless s) = Inr (Return response) \<Longrightarrow>
           fst (performSearch cl useHeadless s0) = Inr response"
    and "fst (searchAttempt cl headless s) = Inl e \<Longrightarrow>
           fst (performSearch cl useHeadless s0) = Inl e"
  using assms
  by (auto simp: attemptAt_def performSearch_Return performSearch_Inl performSearch_Rerun)

lemma performSearchAndGetHtml_attemptAt:
  assumes "htmlAttemptAt cl saveToFile outputPath strip useHeadless s0 headless s"
  shows "fst (htmlAttempt cl saveToFile outputPath strip headless s) = Inl e \<Longrightarrow>
           fst (performSearchAndGetHtml cl saveToFile outputPath strip useHeadless s0) = Inl e"
  using assms
  by (auto simp: htmlAttemptAt_def performSearchAndGetHtml_Inl performSearchAndGetHtml_Rerun)

text \<open>
  The reading of the saved state does not throw, and sets \<^verbatim>\<open>storageState\<close> exactly when
  the state file exists. So each entry point is the run of its first attempt in the
  state that the reading leaves.
\<close>

lemma bind_perform:
  "bind (perform c) f s = f (replies s (length (trace s))) (s\<lparr>trace := trace s @ [c]\<rparr>)"
  by (simp add: bind_def perform_def)

lemma fst_return: "fst (return x s) = Inr x"
  by (simp add: return_def)

lemma fst_bind_return: "fst (m s) = Inr x \<Longrightarrow> fst (bind m (\<lambda>u. return y) s) = Inr y"
  by (cases "m s") (simp add: bind_def return_def)

lemma loadSavedState_returns:
  "fst (loadSavedState stateFile fpFile s) =
     Inr (if r_found (replies s (length (trace s))) then Some stateFile else None)"
proof -
  have quiet: "fst ((if c then tryCatch m (\<lambda>e. return ()) else return ()) t) = Inr ()"
    for c and m :: "unit prog" and t
    by (simp add: tryCatch_swallow fst_return)
  show ?thesis
    unfolding loadSavedState_def
    by (simp add: bind_perform fst_bind_return [OF quiet] fst_return)
qed

lemma googleSearch_run:
  "googleSearch env host q options existingBrowser =
     performSearch (searchClosure env host q options existingBrowser) (firstHeadless options)
       (snd (loaded env options))"
proof -
  have "fst (loaded env options) =
      Inr (if r_found (env 0) then Some (stateFileOf options) else None)"
    unfolding loaded_def using loadSavedState_returns [of _ _ "initialWorld env"]
    by (simp add: initialWorld_def)
  then obtain s' where
    "loaded env options = (Inr (if r_found (env 0) then Some (stateFileOf options) else None), s')"
    by (cases "loaded env options") auto
  then show ?thesis
    by (simp add: googleSearch_def Let_def bind_def loaded_def stateFileOf_def searchClosure_def
        firstHeadless_def)
qed

lemma getGoogleSearchPageHtml_run:
  "getGoogleSearchPageHtml env host strip q options saveToFile outputPath =
     performSearchAndGetHtml (captureClosure env host q options) saveToFile outputPath strip
       True (snd (loaded env options))"
proof -
  have "fst (loaded env options) =
      Inr (if r_found (env 0) then Some (stateFileOf options) else None)"
    unfolding loaded_def using loadSavedState_returns [of _ _ "initialWorld env"]
    by (simp add: initialWorld_def)
  then obtain s' where
    "loaded env options = (Inr (if r_found (env 0) then Some (stateFileOf options) else None), s')"
    by (cases "loaded env options") auto
  then show ?thesis
    by (simp add: getGoogleSearchPageHtml_def Let_def bind_def loaded_def stateFileOf_def
        searchClosure_def captureClosure_def)
qed

text \<open>
  A failure inside the \<^verbatim>\<open>try\<close> block of an attempt: the \<^verbatim>\<open>catch\<close> block saves the
  state, which cannot throw, and closes the browser. When the close returns, the
  attempt of the search returns the response with the error message and the attempt
  of the capture throws the wrapped error; when the close throws, both attempts throw
  what the close threw.
\<close>

lemma searchAttempt_try_failure:
  assumes "fst (enterTry cl headless s) = Inr (b, p, co, ctx, pg)"
    and "fst (searchTry cl headless b p co ctx pg (snd (enterTry cl headless s))) = Inl e"
    and "fst (closeUnlessProvided b p
            (snd (saveState cl ctx
               (snd (searchTry cl headless b p co ctx pg (snd (enterTry cl headless s))))))) =
         Inr ()"
  shows "fst (searchAttempt cl headless s) =
           Inr (Return
             \<lparr>query = cl_query cl,
              results =
                [\<lparr>title = ''Search failed'', link = [],
                  snippet = ''Could not complete the search, error message: '' @ message e\<rparr>]\<rparr>)"
proof -
  obtain s0 where s0: "enterTry cl headless s = (Inr (b, p, co, ctx, pg), s0)"
    using assms(1) by (cases "enterTry cl headless s") auto
  obtain s1 where s1: "searchTry cl headless b p co ctx pg s0 = (Inl e, s1)"
    using assms(2) s0 by (cases "searchTry cl headless b p co ctx pg s0") auto
  obtain s2 where s2: "saveState cl ctx s1 = (Inr (), s2)"
    using saveState_completes [of cl ctx s1] by (cases "saveState cl ctx s1") auto
  obtain s3 where s3: "closeUnlessProvided b p s2 = (Inr (), s3)"
    using assms(3) s0 s1 s2 by (cases "closeUnlessProvided b p s2") auto
  show ?thesis
    using s0 s1 s2 s3
    by (simp add: searchAttempt_split bind_def tryCatch_def searchCatch_def return_def)
qed

lemma htmlAttempt_try_failure:
  assumes "fst (htmlEnterTry cl headless s) = Inr (b, ctx, pg)"
    and "fst (htmlTry cl saveToFile outputPath strip headless b ctx pg
                (snd (htmlEnterTry cl headless s))) = Inl e"
    and "\<not> isl (fst (call (BrowserClose b)
            (snd (saveState cl ctx
               (snd (htmlTry cl saveToFile outputPath strip headless b ctx pg
                       (snd (htmlEnterTry cl headless s))))))))"
  shows "fst (htmlAttempt cl saveToFile outputPath strip headless s) =
           Inl (Error (''Failed to get Google search page HTML: '' @ message e))"
proof -
  obtain s0 where s0: "htmlEnterTry cl headless s = (Inr (b, ctx, pg), s0)"
    using assms(1) by (cases "htmlEnterTry cl headless s") auto
  obtain s1 where s1:
    "htmlTry cl saveToFile outputPath strip headless b ctx pg s0 = (Inl e, s1)"
    using assms(2) s0
    by (cases "htmlTry cl saveToFile outputPath strip headless b ctx pg s0") auto
  obtain s2 where s2: "saveState cl ctx s1 = (Inr (), s2)"
    using saveState_completes [of cl ctx s1] by (cases "saveState cl ctx s1") auto
  obtain r s3 where s3: "call (BrowserClose b) s2 = (Inr r, s3)"
    using assms(3) s0 s1 s2
    by (cases "call (BrowserClose b) s2"; cases "fst (call (BrowserClose b) s2)") auto
  show ?thesis
    using s0 s1 s2 s3
    by (simp add: htmlAttempt_split bind_def tryCatch_def htmlCatch_def throw_def)
qed

lemma searchAttempt_catch_failure:
  assumes "fst (enterTry cl headless s) = Inr (b, p, co, ctx, pg)"
    and "fst (searchTry cl headless b p co ctx pg (snd (enterTry cl headless s))) = Inl e"
    and "fst (closeUnlessProvided b p
            (snd (saveState cl ctx
               (snd (searchTry cl headless b p co ctx pg (snd (enterTry cl headless s))))))) =
         Inl e'"
  shows "fst (searchAttempt cl headless s) = Inl e'"
proof -
  obtain s0 where s0: "enterTry cl headless s = (Inr (b, p, co, ctx, pg), s0)"
    using assms(1) by (cases "enterTry cl headless s") auto
  obtain s1 where s1: "searchTry cl headless b p co ctx pg s0 = (Inl e, s1)"
    using assms(2) s0 by (cases "searchTry cl headless b p co ctx pg s0") auto
  obtain s2 where s2: "saveState cl ctx s1 = (Inr (), s2)"
    using saveState_completes [of cl ctx s1] by (cases "saveState cl ctx s1") auto
  obtain s3 where s3: "closeUnlessProvided b p s2 = (Inl e', s3)"
    using assms(3) s0 s1 s2 by (cases "closeUnlessProvided b p s2") auto
  show ?thesis
    using s0 s1 s2 s3
    by (simp add: searchAttempt_split bind_def tryCatch_def searchCatch_def return_def)
qed

lemma htmlAttempt_catch_failure:
  assumes "fst (htmlEnterTry cl headless s) = Inr (b, ctx, pg)"
    and "fst (htmlTry cl saveToFile outputPath strip headless b ctx pg
                (snd (htmlEnterTry cl headless s))) = Inl e"
    and "fst (call (BrowserClose b)
            (snd (saveState cl ctx
               (snd (htmlTry cl saveToFile outputPath strip headless b ctx pg
                       (snd (htmlEnterTry cl headless s))))))) = Inl e'"
  shows "fst (htmlAttempt cl saveToFile outputPath strip headless s) = Inl e'"
proof -
  obtain s0 where s0: "htmlEnterTry cl headless s = (Inr (b, ctx, pg), s0)"
    using assms(1) by (cases "htmlEnterTry cl headless s") auto
  obtain s1 where s1:
    "htmlTry cl saveToFile outputPath strip headless b ctx pg s0 = (Inl e, s1)"
    using assms(2) s0
    by (cases "htmlTry cl saveToFile outputPath strip headless b ctx pg s0") auto
  obtain s2 where s2: "saveState cl ctx s1 = (Inr (), s2)"
    using saveState_completes [of cl ctx s1] by (cases "saveState cl ctx s1") auto
  obtain s3 where s3: "call (BrowserClose b) s2 = (Inl e', s3)"
    using assms(3) s0 s1 s2 by (cases "call (BrowserClose b) s2") auto
  show ?thesis
    using s0 s1 s2 s3
    by (simp add: htmlAttempt_split bind_def tryCatch_def htmlCatch_def throw_def)
qed

text \<open>A failure before the \<^verbatim>\<open>try\<close> block of an attempt is thrown by the attempt.\<close>

lemma searchAttempt_early_failure:
  "fst (enterTry cl headless s) = Inl e \<Longrightarrow> fst (searchAttempt cl headless s) = Inl e"
  by (cases "enterTry cl headless s") (simp add: searchAttempt_split bind_def)

lemma htmlAttempt_early_failure:
  "fst (htmlEnterTry cl headless s) = Inl e \<Longrightarrow>
   fst (htmlAttempt cl saveToFile outputPath strip headless s) = Inl e"
  by (cases "htmlEnterTry cl headless s") (simp add: htmlAttempt_split bind_def)

text \<open>
  An attempt throws in no other way: what it throws was thrown before the \<^verbatim>\<open>try\<close>
  block or by the close of the browser in the \<^verbatim>\<open>catch\<close> block or, in the capture, is
  the wrapped error. And what an entry point throws, one of the attempts of its run
  threw.
\<close>

lemma searchAttempt_throws_cases:
  assumes "fst (searchAttempt cl headless s) = Inl err"
  shows "fst (enterTry cl headless s) = Inl err \<or>
         (\<exists>b p co ctx pg e.
            fst (enterTry cl headless s) = Inr (b, p, co, ctx, pg) \<and>
            fst (searchTry cl headless b p co ctx pg (snd (enterTry cl headless s))) = Inl e \<and>
            fst (closeUnlessProvided b p
                   (snd (saveState cl ctx
                      (snd (searchTry cl headless b p co ctx pg
                              (snd (enterTry cl headless s))))))) = Inl err)"
proof (cases "enterTry cl headless s")
  case (Pair r s0)
  show ?thesis
  proof (cases r)
    case (Inl e0)
    then show ?thesis using assms Pair by (simp add: searchAttempt_split bind_def)
  next
    case (Inr t)
    obtain b p co ctx pg where t: "t = (b, p, co, ctx, pg)" by (cases t) auto
    obtain r1 s1 where s1: "searchTry cl headless b p co ctx pg s0 = (r1, s1)"
      by (cases "searchTry cl headless b p co ctx pg s0") auto
    show ?thesis
    proof (cases r1)
      case (Inr out)
      then show ?thesis
        using assms Pair \<open>r = Inr t\<close> t s1
        by (simp add: searchAttempt_split bind_def tryCatch_def)
    next
      case (Inl e)
      obtain s2 where s2: "saveState cl ctx s1 = (Inr (), s2)"
        using saveState_completes [of cl ctx s1] by (cases "saveState cl ctx s1") auto
      obtain r3 s3 where s3: "closeUnlessProvided b p s2 = (r3, s3)"
        by (cases "closeUnlessProvided b p s2") auto
      have "r3 = Inl err"
        using assms Pair \<open>r = Inr t\<close> t s1 Inl s2 s3
        by (cases r3)
          (simp_all add: searchAttempt_split bind_def tryCatch_def searchCatch_def return_def)
      then show ?thesis
        using Pair \<open>r = Inr t\<close> t s1 Inl s2 s3 by simp
    qed
  qed
qed

lemma htmlAttempt_throws_cases:
  assumes "fst (htmlAttempt cl saveToFile outputPath strip headless s) = Inl err"
  shows "fst (htmlEnterTry cl headless s) = Inl err \<or>
         (\<exists>b ctx pg e.
            fst (htmlEnterTry cl headless s) = Inr (b, ctx, pg) \<and>
            fst (htmlTry cl saveToFile outputPath strip headless b ctx pg
                   (snd (htmlEnterTry cl headless s))) = Inl e \<and>
            (if isl (fst (call (BrowserClose b)
                        (snd (saveState cl ctx
                           (snd (htmlTry cl saveToFile outputPath strip headless b ctx pg
                                   (snd (htmlEnterTry cl headless s))))))))
             then fst (call (BrowserClose b)
                        (snd (saveState cl ctx
                           (snd (htmlTry cl saveToFile outputPath strip headless b ctx pg
                                   (snd (htmlEnterTry cl headless s))))))) = Inl err
             else err = Error (''Failed to get Google search page HTML: '' @ message e)))"
proof (cases "htmlEnterTry cl headless s")
  case (Pair r s0)
  show ?thesis
  proof (cases r)
    case (Inl e0)
    then show ?thesis using assms Pair by (simp add: htmlAttempt_split bind_def)
  next
    case (Inr t)
    obtain b ctx pg where t: "t = (b, ctx, pg)" by (cases t) auto
    obtain r1 s1 where s1:
      "htmlTry cl saveToFile outputPath strip headless b ctx pg s0 = (r1, s1)"
      by (cases "htmlTry cl saveToFile outputPath strip headless b ctx pg s0") auto
    show ?thesis
    proof (cases r1)
      case (Inr out)
      then show ?thesis
        using assms Pair \<open>r = Inr t\<close> t s1
        by (simp add: htmlAttempt_split bind_def tryCatch_def)
    next
      case (Inl e)
      obtain s2 where s2: "saveState cl ctx s1 = (Inr (), s2)"
        using saveState_completes [of cl ctx s1] by (cases "saveState cl ctx s1") auto
      obtain r3 s3 where s3: "call (BrowserClose b) s2 = (r3, s3)"
        by (cases "call (BrowserClose b) s2") auto
      show ?thesis
        using assms Pair \<open>r = Inr t\<close> t s1 Inl s2 s3
        by (cases r3)
          (simp_all add: htmlAttempt_split bind_def tryCatch_def htmlCatch_def throw_def)
    qed
  qed
qed


lemma performSearch_throws_attempt:
  assumes "fst (performSearch cl useHeadless s0) = Inl err"
  shows "\<exists>headless s. attemptAt cl useHeadless s0 headless s \<and>
                      fst (searchAttempt cl headless s) = Inl err"
proof (cases "searchAttempt cl useHeadless s0")
  case (Pair r s1)
  show ?thesis
  proof (cases r)
    case (Inl e)
    then have "fst (searchAttempt cl useHeadless s0) = Inl err"
      using assms Pair by (simp add: performSearch.simps [of cl useHeadless])
    then show ?thesis by (auto simp: attemptAt_def)
  next
    case (Inr out)
    show ?thesis
    proof (cases out)
      case (Return response)
      then show ?thesis
        using assms Pair Inr by (simp add: performSearch.simps [of cl useHeadless])
    next
      case Rerun
      have again: "fst (performSearch cl False s1) = Inl err"
        using assms Pair Inr Rerun by (simp add: performSearch.simps [of cl useHeadless])
      have at: "attemptAt cl useHeadless s0 False s1"
        using Pair Inr Rerun by (simp add: attemptAt_def)
      obtain r2 s2 where second: "searchAttempt cl False s1 = (r2, s2)"
        by (cases "searchAttempt cl False s1") auto
      have "r2 = Inl err"
      proof (cases r2)
        case (Inl e)
        then show ?thesis using again second by (simp add: performSearch.simps [of cl False])
      next
        case (Inr out2)
        then show ?thesis
          using again second searchAttempt_Rerun_headless [of cl False s1 s2]
          by (cases out2) (simp_all add: performSearch.simps [of cl False])
      qed
      then have "fst (searchAttempt cl False s1) = Inl err" using second by simp
      then show ?thesis using at by blast
    qed
  qed
qed

lemma performSearchAndGetHtml_throws_attempt:
  assumes "fst (performSearchAndGetHtml cl saveToFile outputPath strip useHeadless s0) = Inl err"
  shows "\<exists>headless s. htmlAttemptAt cl saveToFile outputPath strip useHeadless s0 headless s \<and>
                      fst (htmlAttempt cl saveToFile outputPath strip headless s) = Inl err"
proof (cases "htmlAttempt cl saveToFile outputPath strip useHeadless s0")
  case (Pair r s1)
  show ?thesis
  proof (cases r)
    case (Inl e)
    then have "fst (htmlAttempt cl saveToFile outputPath strip useHeadless s0) = Inl err"
      using assms Pair
      by (simp add: performSearchAndGetHtml.simps [of cl saveToFile outputPath strip useHeadless])
    then show ?thesis by (auto simp: htmlAttemptAt_def)
  next
    case (Inr out)
    show ?thesis
    proof (cases out)
      case (Return response)
      then show ?thesis
        using assms Pair Inr
        by (simp add: performSearchAndGetHtml.simps [of cl saveToFile outputPath strip useHeadless])
    next
      case Rerun
      have again: "fst (performSearchAndGetHtml cl saveToFile outputPath strip False s1) = Inl err"
        using assms Pair Inr Rerun
        by (simp add: performSearchAndGetHtml.simps [of cl saveToFile outputPath strip useHeadless])
      have at: "htmlAttemptAt cl saveToFile outputPath strip useHeadless s0 False s1"
        using Pair Inr Rerun by (simp add: htmlAttemptAt_def)
      obtain r2 s2 where second: "htmlAttempt cl saveToFile outputPath strip False s1 = (r2, s2)"
        by (cases "htmlAttempt cl saveToFile outputPath strip False s1") auto
      have "r2 = Inl err"
      proof (cases r2)
        case (Inl e)
        then show ?thesis
          using again second
          by (simp add: performSearchAndGetHtml.simps [of cl saveToFile outputPath strip False])
      next
        case (Inr out2)
        then show ?thesis
          using again second htmlAttempt_Rerun_headless [of cl saveToFile outputPath strip False s1 s2]
          by (cases out2)
            (simp_all add: performSearchAndGetHtml.simps [of cl saveToFile outputPath strip False])
      qed
      then have "fst (htmlAttempt cl saveToFile outputPath strip False s1) = Inl err"
        using second by simp
      then show ?thesis using at by blast
    qed
  qed
qed

lemma googleSearch_throws_cases:
  assumes "fst (googleSearch env host q options existingBrowser) = Inl err"
  shows "\<exists>headless s.
           attemptAt (searchClosure env host q options existingBrowser) (firstHeadless options)
             (snd (loaded env options)) headless s \<and>
           (fst (enterTry (searchClosure env host q options existingBrowser) headless s) =
              Inl err \<or>
            (\<exists>b p co ctx pg e.
               fst (enterTry (searchClosure env host q options existingBrowser) headless s) =
                 Inr (b, p, co, ctx, pg) \<and>
               fst (searchTry (searchClosure env host q options existingBrowser) headless b p
                      co ctx pg
                      (snd (enterTry (searchClosure env host q options existingBrowser)
                              headless s))) = Inl e \<and>
               fst (closeUnlessProvided b p
                      (snd (saveState (searchClosure env host q options existingBrowser) ctx
                         (snd (searchTry (searchClosure env host q options existingBrowser)
                                 headless b p co ctx pg
                                 (snd (enterTry
                                         (searchClosure env host q options existingBrowser)
                                         headless s))))))) = Inl err))"
proof -
  obtain headless s where
    "attemptAt (searchClosure env host q options existingBrowser) (firstHeadless options)
       (snd (loaded env options)) headless s"
    and "fst (searchAttempt (searchClosure env host q options existingBrowser) headless s) =
         Inl err"
    using performSearch_throws_attempt assms unfolding googleSearch_run by blast
  then show ?thesis
    using searchAttempt_throws_cases by blast
qed

lemma getGoogleSearchPageHtml_throws_cases:
  assumes "fst (getGoogleSearchPageHtml env host strip q options saveToFile outputPath) = Inl err"
  shows "\<exists>headless s.
           htmlAttemptAt (captureClosure env host q options) saveToFile outputPath strip True
             (snd (loaded env options)) headless s \<and>
           fst (htmlAttempt (captureClosure env host q options) saveToFile outputPath strip
                  headless s) = Inl err"
  using performSearchAndGetHtml_throws_attempt assms unfolding getGoogleSearchPageHtml_run
  by blast

text \<open>
  Claim C8, as the code has it. Let an attempt of a run of \<^verbatim>\<open>googleSearch\<close>, or of
  \<^verbatim>\<open>getGoogleSearchPageHtml\<close>, fail: the first attempt, or the headed one that follows
  a headless attempt which met a verification page.

  \<^item> When the \<^verbatim>\<open>try\<close> block of the attempt throws \<open>e\<close> and the close of the browser in
    the \<^verbatim>\<open>catch\<close> block returns, \<^verbatim>\<open>googleSearch\<close> returns the response with the query
    and exactly one result, whose title is \<^verbatim>\<open>Search failed\<close>, whose link is empty and
    whose snippet is the fixed prefix followed by the message of \<open>e\<close>; and
    \<^verbatim>\<open>getGoogleSearchPageHtml\<close> throws an error whose message is the fixed prefix
    followed by the message of \<open>e\<close>.
  \<^item> When the \<^verbatim>\<open>try\<close> block of the attempt throws and the close of the browser in the
    \<^verbatim>\<open>catch\<close> block throws \<open>e'\<close>, both entry points throw \<open>e'\<close>.
  \<^item> When a statement before the \<^verbatim>\<open>try\<close> block of the attempt throws \<open>e\<close> (the launch,
    the making of the context or of the page, an init script), both entry points
    throw \<open>e\<close>, unchanged.

  In the statement, \<open>atTry\<close>, \<open>atCatch\<close> and \<open>atClose\<close> are the states in which the
  \<^verbatim>\<open>try\<close> block, the \<^verbatim>\<open>catch\<close> block and the close of the browser start.
\<close>

theorem attempt_failure_reporting:
  "(let cl = searchClosure env host q options existingBrowser;
        atTry = snd (enterTry cl headless s);
        atCatch = snd (searchTry cl headless b p co ctx pg atTry);
        atClose = snd (saveState cl ctx atCatch);
        hcl = captureClosure env host q options;
        hAtTry = snd (htmlEnterTry hcl headless s);
        hAtCatch = snd (htmlTry hcl saveToFile outputPath strip headless b ctx pg hAtTry);
        hAtClose = snd (saveState hcl ctx hAtCatch)
    in
     (attemptAt cl (firstHeadless options) (snd (loaded env options)) headless s \<longrightarrow>
      fst (enterTry cl headless s) = Inr (b, p, co, ctx, pg) \<longrightarrow>
      fst (searchTry cl headless b p co ctx pg atTry) = Inl e \<longrightarrow>
      fst (closeUnlessProvided b p atClose) = Inr () \<longrightarrow>
      fst (googleSearch env host q options existingBrowser) =
        Inr \<lparr>query = q,
             results =
               [\<lparr>title = ''Search failed'', link = [],
                 snippet = ''Could not complete the search, error message: '' @ message e\<rparr>]\<rparr>) \<and>
     (htmlAttemptAt hcl saveToFile outputPath strip True (snd (loaded env options))
        headless s \<longrightarrow>
      fst (htmlEnterTry hcl headless s) = Inr (b, ctx, pg) \<longrightarrow>
      fst (htmlTry hcl saveToFile outputPath strip headless b ctx pg hAtTry) = Inl e \<longrightarrow>
      \<not> isl (fst (call (BrowserClose b) hAtClose)) \<longrightarrow>
      fst (getGoogleSearchPageHtml env host strip q options saveToFile outputPath) =
        Inl (Error (''Failed to get Google search page HTML: '' @ message e))) \<and>
     (attemptAt cl (firstHeadless options) (snd (loaded env options)) headless s \<longrightarrow>
      fst (enterTry cl headless s) = Inr (b, p, co, ctx, pg) \<longrightarrow>
      fst (searchTry cl headless b p co ctx pg atTry) = Inl e \<longrightarrow>
      fst (closeUnlessProvided b p atClose) = Inl e' \<longrightarrow>
      fst (googleSearch env host q options existingBrowser) = Inl e') \<and>
     (htmlAttemptAt hcl saveToFile outputPath strip True (snd (loaded env options))
        headless s \<longrightarrow>
      fst (htmlEnterTry hcl headless s) = Inr (b, ctx, pg) \<longrightarrow>
      fst (htmlTry hcl saveToFile outputPath strip headless b ctx pg hAtTry) = Inl e \<longrightarrow>
      fst (call (BrowserClose b) hAtClose) = Inl e' \<longrightarrow>
      fst (getGoogleSearchPageHtml env host strip q options saveToFile outputPath) = Inl e') \<and>
     (attemptAt cl (firstHeadless options) (snd (loaded env options)) headless s \<longrightarrow>
      fst (enterTry cl headless s) = Inl e \<longrightarrow>
      fst (googleSearch env host q options existingBrowser) = Inl e) \<and>
     (htmlAttemptAt hcl saveToFile outputPath strip True (snd (loaded env options))
        headless s \<longrightarrow>
      fst (htmlEnterTry hcl headless s) = Inl e \<longrightarrow>
      fst (getGoogleSearchPageHtml env host strip q options saveToFile outputPath) = Inl e))"
proof -
  let ?cl = "searchClosure env host q options existingBrowser"
  let ?hcl = "captureClosure env host q options"
  have q: "cl_query ?cl = q" by (simp add: searchClosure_def)
  have run: "getGoogleSearchPageHtml env host strip q options saveToFile outputPath =
      performSearchAndGetHtml ?hcl saveToFile outputPath strip True (snd (loaded env options))"
    by (rule getGoogleSearchPageHtml_run)
  show ?thesis
    unfolding Let_def
  proof (intro conjI impI)
    assume at: "attemptAt ?cl (firstHeadless options) (snd (loaded env options)) headless s"
      and a: "fst (enterTry ?cl headless s) = Inr (b, p, co, ctx, pg)"
      and t: "fst (searchTry ?cl headless b p co ctx pg (snd (enterTry ?cl headless s))) =
              Inl e"
      and c: "fst (closeUnlessProvided b p
             (snd (saveState ?cl ctx
                (snd (searchTry ?cl headless b p co ctx pg
                        (snd (enterTry ?cl headless s))))))) = Inr ()"
    show "fst (googleSearch env host q options existingBrowser) =
        Inr \<lparr>query = q,
             results =
               [\<lparr>title = ''Search failed'', link = [],
                 snippet = ''Could not complete the search, error message: '' @ message e\<rparr>]\<rparr>"
      using performSearch_attemptAt(1) [OF at searchAttempt_try_failure [OF a t c]] q
      by (simp add: googleSearch_run)
  next
    assume at: "htmlAttemptAt ?hcl saveToFile outputPath strip True (snd (loaded env options))
        headless s"
      and a: "fst (htmlEnterTry ?hcl headless s) = Inr (b, ctx, pg)"
      and t: "fst (htmlTry ?hcl saveToFile outputPath strip headless b ctx pg
             (snd (htmlEnterTry ?hcl headless s))) = Inl e"
      and c: "\<not> isl (fst (call (BrowserClose b)
             (snd (saveState ?hcl ctx
                (snd (htmlTry ?hcl saveToFile outputPath strip headless b ctx pg
                        (snd (htmlEnterTry ?hcl headless s))))))))"
    show "fst (getGoogleSearchPageHtml env host strip q options saveToFile outputPath) =
        Inl (Error (''Failed to get Google search page HTML: '' @ message e))"
      using performSearchAndGetHtml_attemptAt [OF at htmlAttempt_try_failure [OF a t c]]
      by (simp add: run)
  next
    assume at: "attemptAt ?cl (firstHeadless options) (snd (loaded env options)) headless s"
      and a: "fst (enterTry ?cl headless s) = Inr (b, p, co, ctx, pg)"
      and t: "fst (searchTry ?cl headless b p co ctx pg (snd (enterTry ?cl headless s))) =
              Inl e"
      and c: "fst (closeUnlessProvided b p
             (snd (saveState ?cl ctx
                (snd (searchTry ?cl headless b p co ctx pg
                        (snd (enterTry ?cl headless s))))))) = Inl e'"
    show "fst (googleSearch env host q options existingBrowser) = Inl e'"
      using performSearch_attemptAt(2) [OF at searchAttempt_catch_failure [OF a t c]]
      by (simp add: googleSearch_run)
  next
    assume at: "htmlAttemptAt ?hcl saveToFile outputPath strip True (snd (loaded env options))
        headless s"
      and a: "fst (htmlEnterTry ?hcl headless s) = Inr (b, ctx, pg)"
      and t: "fst (htmlTry ?hcl saveToFile outputPath strip headless b ctx pg
             (snd (htmlEnterTry ?hcl headless s))) = Inl e"
      and c: "fst (call (BrowserClose b)
             (snd (saveState ?hcl ctx
                (snd (htmlTry ?hcl saveToFile outputPath strip headless b ctx pg
                        (snd (htmlEnterTry ?hcl headless s))))))) = Inl e'"
    show "fst (getGoogleSearchPageHtml env host strip q options saveToFile outputPath) = Inl e'"
      using performSearchAndGetHtml_attemptAt [OF at htmlAttempt_catch_failure [OF a t c]]
      by (simp add: run)
  next
    assume at: "attemptAt ?cl (firstHeadless options) (snd (loaded env options)) headless s"
      and a: "fst (enterTry ?cl headless s) = Inl e"
    show "fst (googleSearch env host q options existingBrowser) = Inl e"
      using performSearch_attemptAt(2) [OF at searchAttempt_early_failure [OF a]]
      by (simp add: googleSearch_run)
  next
    assume at: "htmlAttemptAt ?hcl saveToFile outputPath strip True (snd (loaded env options))
        headless s"
      and a: "fst (htmlEnterTry ?hcl headless s) = Inl e"
    show "fst (getGoogleSearchPageHtml env host strip q options saveToFile outputPath) = Inl e"
      using performSearchAndGetHtml_attemptAt [OF at htmlAttempt_early_failure [OF a]]
      by (simp add: run)
  qed
qed

text \<open>
  The witness. In \<open>nothingFound\<close> the \<^verbatim>\<open>try\<close> block of the first attempt throws
  \<^verbatim>\<open>Could not find search box\<close> and the close returns; in \<open>closeFails\<close> the close
  throws \<^verbatim>\<open>Target closed\<close>; in \<open>contextFails\<close> the making of the context throws
  \<^verbatim>\<open>bad storage state\<close>; in \<open>blockedOnce\<close> the attempt that fails is the second one.
\<close>

theorem attempt_failure_reporting_witness:
  "attemptAt (searchClosure nothingFound sampleHost ''x'' noOptions None) (firstHeadless
     noOptions) (snd (loaded nothingFound noOptions)) True (snd (loaded nothingFound noOptions)) \<and>
   fst (enterTry (searchClosure nothingFound sampleHost ''x'' noOptions None) True (snd (loaded
     nothingFound noOptions))) = Inr (Launched 1, False, sampleContextOptions, Context 3, Page 5) \<and>
   fst (searchTry (searchClosure nothingFound sampleHost ''x'' noOptions None) True (Launched 1)
     False sampleContextOptions (Context 3) (Page 5) (snd (enterTry (searchClosure nothingFound
     sampleHost ''x'' noOptions None) True (snd (loaded nothingFound noOptions))))) = Inl (Error
     ''Could not find search box'') \<and>
   fst (closeUnlessProvided (Launched 1) False (snd (saveState (searchClosure nothingFound
     sampleHost ''x'' noOptions None) (Context 3) (snd (searchTry (searchClosure nothingFound
     sampleHost ''x'' noOptions None) True (Launched 1) False sampleContextOptions (Context 3)
     (Page 5) (snd (enterTry (searchClosure nothingFound sampleHost ''x'' noOptions None) True
     (snd (loaded nothingFound noOptions))))))))) = Inr () \<and>
   htmlAttemptAt (captureClosure nothingFound sampleHost ''x'' noOptions) False None keepAll
     True (snd (loaded nothingFound noOptions)) True (snd (loaded nothingFound noOptions)) \<and>
   fst (htmlEnterTry (captureClosure nothingFound sampleHost ''x'' noOptions) True (snd (loaded
     nothingFound noOptions))) = Inr (Launched 1, Context 3, Page 5) \<and>
   fst (htmlTry (captureClosure nothingFound sampleHost ''x'' noOptions) False None keepAll True
     (Launched 1) (Context 3) (Page 5) (snd (htmlEnterTry (captureClosure nothingFound sampleHost
     ''x'' noOptions) True (snd (loaded nothingFound noOptions))))) = Inl (Error
     ''Could not find search box'') \<and>
   \<not> isl (fst (call (BrowserClose (Launched 1)) (snd (saveState (captureClosure
     nothingFound sampleHost ''x'' noOptions) (Context 3) (snd (htmlTry (captureClosure
     nothingFound sampleHost ''x'' noOptions) False None keepAll True (Launched 1) (Context 3)
     (Page 5) (snd (htmlEnterTry (captureClosure nothingFound sampleHost ''x'' noOptions) True
     (snd (loaded nothingFound noOptions)))))))))) \<and>
   attemptAt (searchClosure closeFails sampleHost ''x'' noOptions None) (firstHeadless
     noOptions) (snd (loaded closeFails noOptions)) True (snd (loaded closeFails noOptions)) \<and>
   fst (enterTry (searchClosure closeFails sampleHost ''x'' noOptions None) True (snd (loaded
     closeFails noOptions))) = Inr (Launched 1, False, sampleContextOptions, Context 3, Page 5) \<and>
   fst (searchTry (searchClosure closeFails sampleHost ''x'' noOptions None) True (Launched 1)
     False sampleContextOptions (Context 3) (Page 5) (snd (enterTry (searchClosure closeFails
     sampleHost ''x'' noOptions None) True (snd (loaded closeFails noOptions))))) = Inl (Error
     ''Could not find search box'') \<and>
   fst (closeUnlessProvided (Launched 1) False (snd (saveState (searchClosure closeFails
     sampleHost ''x'' noOptions None) (Context 3) (snd (searchTry (searchClosure closeFails
     sampleHost ''x'' noOptions None) True (Launched 1) False sampleContextOptions (Context 3)
     (Page 5) (snd (enterTry (searchClosure closeFails sampleHost ''x'' noOptions None) True (snd
     (loaded closeFails noOptions))))))))) = Inl (Error ''Target closed'') \<and>
   htmlAttemptAt (captureClosure closeFails sampleHost ''x'' noOptions) False None keepAll True
     (snd (loaded closeFails noOptions)) True (snd (loaded closeFails noOptions)) \<and>
   fst (htmlEnterTry (captureClosure closeFails sampleHost ''x'' noOptions) True (snd (loaded
     closeFails noOptions))) = Inr (Launched 1, Context 3, Page 5) \<and>
   fst (htmlTry (captureClosure closeFails sampleHost ''x'' noOptions) False None keepAll True
     (Launched 1) (Context 3) (Page 5) (snd (htmlEnterTry (captureClosure closeFails sampleHost
     ''x'' noOptions) True (snd (loaded closeFails noOptions))))) = Inl (Error
     ''Could not find search box'') \<and>
   fst (call (BrowserClose (Launched 1)) (snd (saveState (captureClosure closeFails sampleHost
     ''x'' noOptions) (Context 3) (snd (htmlTry (captureClosure closeFails sampleHost ''x''
     noOptions) False None keepAll True (Launched 1) (Context 3) (Page 5) (snd (htmlEnterTry
     (captureClosure closeFails sampleHost ''x'' noOptions) True (snd (loaded closeFails
     noOptions))))))))) = Inl (Error ''Target closed'') \<and>
   attemptAt (searchClosure contextFails sampleHost ''x'' noOptions None) (firstHeadless
     noOptions) (snd (loaded contextFails noOptions)) True (snd (loaded contextFails noOptions)) \<and>
   fst (enterTry (searchClosure contextFails sampleHost ''x'' noOptions None) True (snd (loaded
     contextFails noOptions))) = Inl (Error ''bad storage state'') \<and>
   htmlAttemptAt (captureClosure contextFails sampleHost ''x'' noOptions) False None keepAll
     True (snd (loaded contextFails noOptions)) True (snd (loaded contextFails noOptions)) \<and>
   fst (htmlEnterTry (captureClosure contextFails sampleHost ''x'' noOptions) True (snd (loaded
     contextFails noOptions))) = Inl (Error ''bad storage state'') \<and>
   fst (searchAttempt (searchClosure blockedOnce sampleHost ''x'' noOptions None) True (snd
     (loaded blockedOnce noOptions))) = Inr Rerun \<and>
   fst (htmlAttempt (captureClosure blockedOnce sampleHost ''x'' noOptions) False None keepAll
     True (snd (loaded blockedOnce noOptions))) = Inr Rerun \<and>
   attemptAt (searchClosure blockedOnce sampleHost ''x'' noOptions None) (firstHeadless
     noOptions) (snd (loaded blockedOnce noOptions)) False (snd (searchAttempt (searchClosure
     blockedOnce sampleHost ''x'' noOptions None) True (snd (loaded blockedOnce noOptions)))) \<and>
   fst (enterTry (searchClosure blockedOnce sampleHost ''x'' noOptions None) False (snd
     (searchAttempt (searchClosure blockedOnce sampleHost ''x'' noOptions None) True (snd (loaded
     blockedOnce noOptions))))) = Inr (Launched 13, False, sampleContextOptions, Context 14, Page
     16) \<and>
   fst (searchTry (searchClosure blockedOnce sampleHost ''x'' noOptions None) False (Launched
     13) False sampleContextOptions (Context 14) (Page 16) (snd (enterTry (searchClosure
     blockedOnce sampleHost ''x'' noOptions None) False (snd (searchAttempt (searchClosure
     blockedOnce sampleHost ''x'' noOptions None) True (snd (loaded blockedOnce noOptions))))))) =
     Inl (Error ''Could not find search box'') \<and>
   fst (closeUnlessProvided (Launched 13) False (snd (saveState (searchClosure blockedOnce
     sampleHost ''x'' noOptions None) (Context 14) (snd (searchTry (searchClosure blockedOnce
     sampleHost ''x'' noOptions None) False (Launched 13) False sampleContextOptions (Context 14)
     (Page 16) (snd (enterTry (searchClosure blockedOnce sampleHost ''x'' noOptions None) False
     (snd (searchAttempt (searchClosure blockedOnce sampleHost ''x'' noOptions None) True (snd
     (loaded blockedOnce noOptions))))))))))) = Inr () \<and>
   htmlAttemptAt (captureClosure blockedOnce sampleHost ''x'' noOptions) False None keepAll True
     (snd (loaded blockedOnce noOptions)) False (snd (htmlAttempt (captureClosure blockedOnce
     sampleHost ''x'' noOptions) False None keepAll True (snd (loaded blockedOnce noOptions)))) \<and>
   fst (htmlEnterTry (captureClosure blockedOnce sampleHost ''x'' noOptions) False (snd
     (htmlAttempt (captureClosure blockedOnce sampleHost ''x'' noOptions) False None keepAll True
     (snd (loaded blockedOnce noOptions))))) = Inr (Launched 13, Context 14, Page 16) \<and>
   fst (htmlTry (captureClosure blockedOnce sampleHost ''x'' noOptions) False None keepAll False
     (Launched 13) (Context 14) (Page 16) (snd (htmlEnterTry (captureClosure blockedOnce
     sampleHost ''x'' noOptions) False (snd (htmlAttempt (captureClosure blockedOnce sampleHost
     ''x'' noOptions) False None keepAll True (snd (loaded blockedOnce noOptions))))))) = Inl
     (Error ''Could not find search box'') \<and>
   \<not> isl (fst (call (BrowserClose (Launched 13)) (snd (saveState (captureClosure
     blockedOnce sampleHost ''x'' noOptions) (Context 14) (snd (htmlTry (captureClosure
     blockedOnce sampleHost ''x'' noOptions) False None keepAll False (Launched 13) (Context 14)
     (Page 16) (snd (htmlEnterTry (captureClosure blockedOnce sampleHost ''x'' noOptions) False
     (snd (htmlAttempt (captureClosure blockedOnce sampleHost ''x'' noOptions) False None keepAll
     True (snd (loaded blockedOnce noOptions)))))))))))) \<and>
   fst (googleSearch nothingFound sampleHost ''x'' noOptions None) = Inr \<lparr>query = ''x'',
     results = [\<lparr>title = ''Search failed'', link = [], snippet =
     ''Could not complete the search, error message: Could not find search box''\<rparr>]\<rparr> \<and>
   fst (getGoogleSearchPageHtml nothingFound sampleHost keepAll ''x'' noOptions False None) =
     Inl (Error ''Failed to get Google search page HTML: Could not find search box'') \<and>
   fst (googleSearch closeFails sampleHost ''x'' noOptions None) = Inl (Error ''Target closed'') \<and>
   fst (getGoogleSearchPageHtml closeFails sampleHost keepAll ''x'' noOptions False None) = Inl
     (Error ''Target closed'') \<and>
   fst (googleSearch contextFails sampleHost ''x'' noOptions None) = Inl (Error
     ''bad storage state'') \<and>
   fst (getGoogleSearchPageHtml contextFails sampleHost keepAll ''x'' noOptions False None) =
     Inl (Error ''bad storage state'') \<and>
   fst (googleSearch blockedOnce sampleHost ''x'' noOptions None) = Inr \<lparr>query = ''x'',
     results = [\<lparr>title = ''Search failed'', link = [], snippet =
     ''Could not complete the search, error message: Could not find search box''\<rparr>]\<rparr> \<and>
   fst (getGoogleSearchPageHtml blockedOnce sampleHost keepAll ''x'' noOptions False None) = Inl
     (Error ''Failed to get Google search page HTML: Could not find search box'')"
proof -
  have a1:
    "attemptAt (searchClosure nothingFound sampleHost ''x'' noOptions None) (firstHeadless
      noOptions) (snd (loaded nothingFound noOptions)) True (snd (loaded nothingFound noOptions))"
    by (simp add: attemptAt_def firstHeadless_def noOptions_def)
  have h1:
    "fst (enterTry (searchClosure nothingFound sampleHost ''x'' noOptions None) True (snd (loaded
      nothingFound noOptions))) = Inr (Launched 1, False, sampleContextOptions, Context 3, Page 5)"
    by code_simp
  have t1:
    "fst (searchTry (searchClosure nothingFound sampleHost ''x'' noOptions None) True (Launched
      1) False sampleContextOptions (Context 3) (Page 5) (snd (enterTry (searchClosure
      nothingFound sampleHost ''x'' noOptions None) True (snd (loaded nothingFound noOptions)))))
      = Inl (Error ''Could not find search box'')"
    by code_simp
  have c1:
    "fst (closeUnlessProvided (Launched 1) False (snd (saveState (searchClosure nothingFound
      sampleHost ''x'' noOptions None) (Context 3) (snd (searchTry (searchClosure nothingFound
      sampleHost ''x'' noOptions None) True (Launched 1) False sampleContextOptions (Context 3)
      (Page 5) (snd (enterTry (searchClosure nothingFound sampleHost ''x'' noOptions None) True
      (snd (loaded nothingFound noOptions))))))))) = Inr ()"
    by code_simp
  have a2:
    "htmlAttemptAt (captureClosure nothingFound sampleHost ''x'' noOptions) False None keepAll
      True (snd (loaded nothingFound noOptions)) True (snd (loaded nothingFound noOptions))"
    by (simp add: htmlAttemptAt_def)
  have h2:
    "fst (htmlEnterTry (captureClosure nothingFound sampleHost ''x'' noOptions) True (snd (loaded
      nothingFound noOptions))) = Inr (Launched 1, Context 3, Page 5)"
    by code_simp
  have t2:
    "fst (htmlTry (captureClosure nothingFound sampleHost ''x'' noOptions) False None keepAll
      True (Launched 1) (Context 3) (Page 5) (snd (htmlEnterTry (captureClosure nothingFound
      sampleHost ''x'' noOptions) True (snd (loaded nothingFound noOptions))))) = Inl (Error
      ''Could not find search box'')"
    by code_simp
  have c2:
    "\<not> isl (fst (call (BrowserClose (Launched 1)) (snd (saveState (captureClosure
      nothingFound sampleHost ''x'' noOptions) (Context 3) (snd (htmlTry (captureClosure
      nothingFound sampleHost ''x'' noOptions) False None keepAll True (Launched 1) (Context 3)
      (Page 5) (snd (htmlEnterTry (captureClosure nothingFound sampleHost ''x'' noOptions) True
      (snd (loaded nothingFound noOptions))))))))))"
    by code_simp
  have a3:
    "attemptAt (searchClosure closeFails sampleHost ''x'' noOptions None) (firstHeadless
      noOptions) (snd (loaded closeFails noOptions)) True (snd (loaded closeFails noOptions))"
    by (simp add: attemptAt_def firstHeadless_def noOptions_def)
  have h3:
    "fst (enterTry (searchClosure closeFails sampleHost ''x'' noOptions None) True (snd (loaded
      closeFails noOptions))) = Inr (Launched 1, False, sampleContextOptions, Context 3, Page 5)"
    by code_simp
  have t3:
    "fst (searchTry (searchClosure closeFails sampleHost ''x'' noOptions None) True (Launched 1)
      False sampleContextOptions (Context 3) (Page 5) (snd (enterTry (searchClosure closeFails
      sampleHost ''x'' noOptions None) True (snd (loaded closeFails noOptions))))) = Inl (Error
      ''Could not find search box'')"
    by code_simp
  have c3:
    "fst (closeUnlessProvided (Launched 1) False (snd (saveState (searchClosure closeFails
      sampleHost ''x'' noOptions None) (Context 3) (snd (searchTry (searchClosure closeFails
      sampleHost ''x'' noOptions None) True (Launched 1) False sampleContextOptions (Context 3)
      (Page 5) (snd (enterTry (searchClosure closeFails sampleHost ''x'' noOptions None) True (snd
      (loaded closeFails noOptions))))))))) = Inl (Error ''Target closed'')"
    by code_simp
  have a4:
    "htmlAttemptAt (captureClosure closeFails sampleHost ''x'' noOptions) False None keepAll True
      (snd (loaded closeFails noOptions)) True (snd (loaded closeFails noOptions))"
    by (simp add: htmlAttemptAt_def)
  have h4:
    "fst (htmlEnterTry (captureClosure closeFails sampleHost ''x'' noOptions) True (snd (loaded
      closeFails noOptions))) = Inr (Launched 1, Context 3, Page 5)"
    by code_simp
  have t4:
    "fst (htmlTry (captureClosure closeFails sampleHost ''x'' noOptions) False None keepAll True
      (Launched 1) (Context 3) (Page 5) (snd (htmlEnterTry (captureClosure closeFails sampleHost
      ''x'' noOptions) True (snd (loaded closeFails noOptions))))) = Inl (Error
      ''Could not find search box'')"
    by code_simp
  let ?closed =
    "fst (call (BrowserClose (Launched 1)) (snd (saveState (captureClosure closeFails sampleHost
      ''x'' noOptions) (Context 3) (snd (htmlTry (captureClosure closeFails sampleHost ''x''
      noOptions) False None keepAll True (Launched 1) (Context 3) (Page 5) (snd (htmlEnterTry
      (captureClosure closeFails sampleHost ''x'' noOptions) True (snd (loaded closeFails
      noOptions)))))))))"
  have c4': "map_sum id (\<lambda>r. ()) ?closed = Inl (Error ''Target closed'')"
    by code_simp
  have c4:
    "fst (call (BrowserClose (Launched 1)) (snd (saveState (captureClosure closeFails sampleHost
      ''x'' noOptions) (Context 3) (snd (htmlTry (captureClosure closeFails sampleHost ''x''
      noOptions) False None keepAll True (Launched 1) (Context 3) (Page 5) (snd (htmlEnterTry
      (captureClosure closeFails sampleHost ''x'' noOptions) True (snd (loaded closeFails
      noOptions))))))))) = Inl (Error ''Target closed'')"
    using c4' by (cases ?closed) simp_all
  have a5:
    "attemptAt (searchClosure contextFails sampleHost ''x'' noOptions None) (firstHeadless
      noOptions) (snd (loaded contextFails noOptions)) True (snd (loaded contextFails noOptions))"
    by (simp add: attemptAt_def firstHeadless_def noOptions_def)
  have h5:
    "fst (enterTry (searchClosure contextFails sampleHost ''x'' noOptions None) True (snd (loaded
      contextFails noOptions))) = Inl (Error ''bad storage state'')"
    by code_simp
  have a6:
    "htmlAttemptAt (captureClosure contextFails sampleHost ''x'' noOptions) False None keepAll
      True (snd (loaded contextFails noOptions)) True (snd (loaded contextFails noOptions))"
    by (simp add: htmlAttemptAt_def)
  have h6:
    "fst (htmlEnterTry (captureClosure contextFails sampleHost ''x'' noOptions) True (snd (loaded
      contextFails noOptions))) = Inl (Error ''bad storage state'')"
    by code_simp
  have rerun7:
    "fst (searchAttempt (searchClosure blockedOnce sampleHost ''x'' noOptions None) True (snd
      (loaded blockedOnce noOptions))) = Inr Rerun"
    by code_simp
  have rerun8:
    "fst (htmlAttempt (captureClosure blockedOnce sampleHost ''x'' noOptions) False None keepAll
      True (snd (loaded blockedOnce noOptions))) = Inr Rerun"
    by code_simp
  have a7:
    "attemptAt (searchClosure blockedOnce sampleHost ''x'' noOptions None) (firstHeadless
      noOptions) (snd (loaded blockedOnce noOptions)) False (snd (searchAttempt (searchClosure
      blockedOnce sampleHost ''x'' noOptions None) True (snd (loaded blockedOnce noOptions))))"
    using rerun7 by (simp add: attemptAt_def firstHeadless_def noOptions_def)
  have h7:
    "fst (enterTry (searchClosure blockedOnce sampleHost ''x'' noOptions None) False (snd
      (searchAttempt (searchClosure blockedOnce sampleHost ''x'' noOptions None) True (snd (loaded
      blockedOnce noOptions))))) = Inr (Launched 13, False, sampleContextOptions, Context 14, Page
      16)"
    by code_simp
  have t7:
    "fst (searchTry (searchClosure blockedOnce sampleHost ''x'' noOptions None) False (Launched
      13) False sampleContextOptions (Context 14) (Page 16) (snd (enterTry (searchClosure
      blockedOnce sampleHost ''x'' noOptions None) False (snd (searchAttempt (searchClosure
      blockedOnce sampleHost ''x'' noOptions None) True (snd (loaded blockedOnce noOptions)))))))
      = Inl (Error ''Could not find search box'')"
    by code_simp
  have c7:
    "fst (closeUnlessProvided (Launched 13) False (snd (saveState (searchClosure blockedOnce
      sampleHost ''x'' noOptions None) (Context 14) (snd (searchTry (searchClosure blockedOnce
      sampleHost ''x'' noOptions None) False (Launched 13) False sampleContextOptions (Context 14)
      (Page 16) (snd (enterTry (searchClosure blockedOnce sampleHost ''x'' noOptions None) False
      (snd (searchAttempt (searchClosure blockedOnce sampleHost ''x'' noOptions None) True (snd
      (loaded blockedOnce noOptions))))))))))) = Inr ()"
    by code_simp
  have a8:
    "htmlAttemptAt (captureClosure blockedOnce sampleHost ''x'' noOptions) False None keepAll
      True (snd (loaded blockedOnce noOptions)) False (snd (htmlAttempt (captureClosure
      blockedOnce sampleHost ''x'' noOptions) False None keepAll True (snd (loaded blockedOnce
      noOptions))))"
    using rerun8 by (simp add: htmlAttemptAt_def)
  have h8:
    "fst (htmlEnterTry (captureClosure blockedOnce sampleHost ''x'' noOptions) False (snd
      (htmlAttempt (captureClosure blockedOnce sampleHost ''x'' noOptions) False None keepAll True
      (snd (loaded blockedOnce noOptions))))) = Inr (Launched 13, Context 14, Page 16)"
    by code_simp
  have t8:
    "fst (htmlTry (captureClosure blockedOnce sampleHost ''x'' noOptions) False None keepAll
      False (Launched 13) (Context 14) (Page 16) (snd (htmlEnterTry (captureClosure blockedOnce
      sampleHost ''x'' noOptions) False (snd (htmlAttempt (captureClosure blockedOnce sampleHost
      ''x'' noOptions) False None keepAll True (snd (loaded blockedOnce noOptions))))))) = Inl
      (Error ''Could not find search box'')"
    by code_simp
  have c8:
    "\<not> isl (fst (call (BrowserClose (Launched 13)) (snd (saveState (captureClosure
      blockedOnce sampleHost ''x'' noOptions) (Context 14) (snd (htmlTry (captureClosure
      blockedOnce sampleHost ''x'' noOptions) False None keepAll False (Launched 13) (Context 14)
      (Page 16) (snd (htmlEnterTry (captureClosure blockedOnce sampleHost ''x'' noOptions) False
      (snd (htmlAttempt (captureClosure blockedOnce sampleHost ''x'' noOptions) False None keepAll
      True (snd (loaded blockedOnce noOptions))))))))))))"
    by code_simp
  note T1 = attempt_failure_reporting
    [where env = nothingFound and host = sampleHost and q = "''x''" and options = noOptions and
      existingBrowser = None and strip = keepAll and saveToFile = False and outputPath = None and
      headless = True and s = "(snd (loaded nothingFound noOptions))" and b = "Launched 1" and p = False and
      co = sampleContextOptions and ctx = "Context 3" and pg = "Page 5" and
      e = "Error ''Could not find search box''",
     unfolded Let_def]
  note T2 = attempt_failure_reporting
    [where env = closeFails and host = sampleHost and q = "''x''" and options = noOptions and
      existingBrowser = None and strip = keepAll and saveToFile = False and outputPath = None and
      headless = True and s = "(snd (loaded closeFails noOptions))" and b = "Launched 1" and p = False and
      co = sampleContextOptions and ctx = "Context 3" and pg = "Page 5" and
      e = "Error ''Could not find search box''" and e' = "Error ''Target closed''",
     unfolded Let_def]
  note T3 = attempt_failure_reporting
    [where env = contextFails and host = sampleHost and q = "''x''" and options = noOptions and
      existingBrowser = None and strip = keepAll and saveToFile = False and outputPath = None and
      headless = True and s = "(snd (loaded contextFails noOptions))" and b = "Launched 1" and p = False and
      co = sampleContextOptions and ctx = "Context 3" and pg = "Page 5" and
      e = "Error ''bad storage state''",
     unfolded Let_def]
  note T4 = attempt_failure_reporting
    [where env = blockedOnce and host = sampleHost and q = "''x''" and options = noOptions and
      existingBrowser = None and strip = keepAll and saveToFile = False and outputPath = None and
      headless = False and s = "snd (searchAttempt (searchClosure blockedOnce sampleHost ''x'' noOptions None) True (snd (loaded blockedOnce noOptions)))" and b = "Launched 13" and p = False and
      co = sampleContextOptions and ctx = "Context 14" and pg = "Page 16" and
      e = "Error ''Could not find search box''",
     unfolded Let_def]
  note T5 = attempt_failure_reporting
    [where env = blockedOnce and host = sampleHost and q = "''x''" and options = noOptions and
      existingBrowser = None and strip = keepAll and saveToFile = False and outputPath = None and
      headless = False and s = "snd (htmlAttempt (captureClosure blockedOnce sampleHost ''x'' noOptions) False None keepAll True (snd (loaded blockedOnce noOptions)))" and b = "Launched 13" and p = False and
      co = sampleContextOptions and ctx = "Context 14" and pg = "Page 16" and
      e = "Error ''Could not find search box''",
     unfolded Let_def]
  have r1:
    "fst (googleSearch nothingFound sampleHost ''x'' noOptions None) = Inr \<lparr>query = ''x'',
      results = [\<lparr>title = ''Search failed'', link = [], snippet =
      ''Could not complete the search, error message: Could not find search box''\<rparr>]\<rparr>"
    using T1 [THEN conjunct1, rule_format, OF a1 h1 t1 c1] by simp
  have r2:
    "fst (getGoogleSearchPageHtml nothingFound sampleHost keepAll ''x'' noOptions False None) =
      Inl (Error ''Failed to get Google search page HTML: Could not find search box'')"
    using T1 [THEN conjunct2, THEN conjunct1, rule_format, OF a2 h2 t2 c2] by simp
  have r3:
    "fst (googleSearch closeFails sampleHost ''x'' noOptions None) = Inl (Error
      ''Target closed'')"
    using T2 [THEN conjunct2, THEN conjunct2, THEN conjunct1, rule_format, OF a3 h3 t3 c3] by simp
  have r4:
    "fst (getGoogleSearchPageHtml closeFails sampleHost keepAll ''x'' noOptions False None) = Inl
      (Error ''Target closed'')"
    using T2 [THEN conjunct2, THEN conjunct2, THEN conjunct2, THEN conjunct1, rule_format, OF a4 h4 t4 c4] by simp
  have r5:
    "fst (googleSearch contextFails sampleHost ''x'' noOptions None) = Inl (Error
      ''bad storage state'')"
    using T3 [THEN conjunct2, THEN conjunct2, THEN conjunct2, THEN conjunct2, THEN conjunct1, rule_format, OF a5 h5] by simp
  have r6:
    "fst (getGoogleSearchPageHtml contextFails sampleHost keepAll ''x'' noOptions False None) =
      Inl (Error ''bad storage state'')"
    using T3 [THEN conjunct2, THEN conjunct2, THEN conjunct2, THEN conjunct2, THEN conjunct2, rule_format, OF a6 h6] by simp
  have r7:
    "fst (googleSearch blockedOnce sampleHost ''x'' noOptions None) = Inr \<lparr>query = ''x'',
      results = [\<lparr>title = ''Search failed'', link = [], snippet =
      ''Could not complete the search, error message: Could not find search box''\<rparr>]\<rparr>"
    using T4 [THEN conjunct1, rule_format, OF a7 h7 t7 c7] by simp
  have r8:
    "fst (getGoogleSearchPageHtml blockedOnce sampleHost keepAll ''x'' noOptions False None) =
      Inl (Error ''Failed to get Google search page HTML: Could not find search box'')"
    using T5 [THEN conjunct2, THEN conjunct1, rule_format, OF a8 h8 t8 c8] by simp
  show ?thesis
    by (intro conjI; fact)
qed

text \<open>
  Claim C8, as the specification has it, asks for a response from \<^verbatim>\<open>googleSearch\<close> and
  for a wrapped error from \<^verbatim>\<open>getGoogleSearchPageHtml\<close> on every failure of an attempt
  that the attempt does not catch. Here the making of the context throws, before the
  \<^verbatim>\<open>try\<close> block of the first attempt: \<^verbatim>\<open>googleSearch\<close> returns no response but throws
  the error of the engine, and \<^verbatim>\<open>getGoogleSearchPageHtml\<close> throws that same error, not a
  wrapped one.
\<close>

theorem failure_before_try_counterexample:
  "fst (googleSearch contextFails sampleHost ''x'' noOptions None) =
     Inl (Error ''bad storage state'') \<and>
   fst (getGoogleSearchPageHtml contextFails sampleHost keepAll ''x'' noOptions False None) =
     Inl (Error ''bad storage state'')"
  by code_simp

text \<open>
  The two entry points on the environment where no selector finds the search box, from
  the first call to the value handed to the caller.
\<close>

lemma googleSearch_nothingFound:
  "fst (googleSearch nothingFound sampleHost ''x'' noOptions None) =
     Inr \<lparr>query = ''x'',
          results =
            [\<lparr>title = ''Search failed'', link = [],
              snippet =
                ''Could not complete the search, error message: Could not find search box''\<rparr>]\<rparr>"
  by code_simp

lemma getGoogleSearchPageHtml_nothingFound:
  "fst (getGoogleSearchPageHtml nothingFound sampleHost keepAll ''x'' noOptions False None) =
     Inl (Error ''Failed to get Google search page HTML: Could not find search box'')"
  by code_simp

text \<open>
  What is thrown before the \<^verbatim>\<open>try\<close> block (by the launch, or when the context or the
  page is made) is not caught by either entry point: here the launch, the second call
  of the run, fails.
\<close>

lemma googleSearch_launch_failure:
  "fst (googleSearch (nothingFound (1 := quietReply\<lparr>throws := Some ''no browser''\<rparr>))
          sampleHost ''x'' noOptions None) = Inl (Error ''no browser'')"
  by code_simp


text \<open>
  The \<^verbatim>\<open>catch\<close> block of the capture never returns a value: it throws the wrapped
  error, or what the close of the browser threw.
\<close>

lemma htmlCatch_throws: "\<exists>err. fst (htmlCatch cl b ctx e s) = Inl err"
proof -
  obtain s2 where s2: "saveState cl ctx s = (Inr (), s2)"
    using saveState_completes [of cl ctx s] by (cases "saveState cl ctx s") auto
  show ?thesis
    using s2
    by (cases "call (BrowserClose b) s2")
      (auto simp: htmlCatch_def bind_def throw_def split: sum.splits)
qed

text \<open>
  With the caller's browser the \<^verbatim>\<open>catch\<close> block of \<^verbatim>\<open>performSearch\<close> closes nothing
  and cannot throw.
\<close>

lemma searchCatch_provided_returns: "\<exists>out. fst (searchCatch cl b True ctx e s) = Inr out"
proof -
  obtain s2 where s2: "saveState cl ctx s = (Inr (), s2)"
    using saveState_completes [of cl ctx s] by (cases "saveState cl ctx s") auto
  show ?thesis
    using s2 by (simp add: searchCatch_def closeUnlessProvided_def bind_def return_def)
qed

text \<open>
  Claim C10. Whenever the \<^verbatim>\<open>catch\<close> block of \<^verbatim>\<open>performSearch\<close> returns, it returns a
  response with exactly one result, whose title is \<^verbatim>\<open>Search failed\<close> and whose link is
  the empty string, which does not start with \<^verbatim>\<open>http\<close>.
\<close>

theorem error_result_has_empty_link:
  assumes "fst (searchCatch cl b p ctx e s) = Inr out"
  shows "\<exists>x. out = Return \<lparr>query = cl_query cl, results = [x]\<rparr> \<and>
             title x = ''Search failed'' \<and> link x = [] \<and> \<not> startsWith (link x) ''http''"
proof -
  obtain s2 where s2: "saveState cl ctx s = (Inr (), s2)"
    using saveState_completes [of cl ctx s] by (cases "saveState cl ctx s") auto
  show ?thesis
    using assms s2
    by (cases "closeUnlessProvided b p s2")
      (auto simp: searchCatch_def bind_def return_def startsWith_def split: sum.splits)
qed

theorem error_result_has_empty_link_witness:
  "fst (searchCatch sampleClosure (Launched 0) False (Context 1)
          (Error ''Could not find search box'') (initialWorld nothingFound)) =
     Inr (Return
       \<lparr>query = ''x'',
        results =
          [\<lparr>title = ''Search failed'', link = [],
            snippet =
              ''Could not complete the search, error message: Could not find search box''\<rparr>]\<rparr>) \<and>
   (\<exists>x. Return
       \<lparr>query = ''x'',
        results =
          [\<lparr>title = ''Search failed'', link = [],
            snippet =
              ''Could not complete the search, error message: Could not find search box''\<rparr>]\<rparr> =
         Return \<lparr>query = cl_query sampleClosure, results = [x]\<rparr> \<and>
         title x = ''Search failed'' \<and> link x = [] \<and> \<not> startsWith (link x) ''http'')"
proof -
  have h: "fst (searchCatch sampleClosure (Launched 0) False (Context 1)
          (Error ''Could not find search box'') (initialWorld nothingFound)) =
     Inr (Return
       \<lparr>query = ''x'',
        results =
          [\<lparr>title = ''Search failed'', link = [],
            snippet =
              ''Could not complete the search, error message: Could not find search box''\<rparr>]\<rparr>)"
    by code_simp
  show ?thesis
    using error_result_has_empty_link [OF h] h by simp
qed

text \<open>
  The two shapes of a response. Whatever the environment answers, a response that
  \<^verbatim>\<open>googleSearch\<close> returns is the error response of a \<^verbatim>\<open>catch\<close> block, or the query
  with the results that the extractor took from a page. \<open>yieldsOnly P m\<close> says that
  every value returned by \<open>m\<close> satisfies \<open>P\<close>.
\<close>

definition yieldsOnly :: "('a \<Rightarrow> bool) \<Rightarrow> 'a prog \<Rightarrow> bool" where
  "yieldsOnly P m = (\<forall>s x. fst (m s) = Inr x \<longrightarrow> P x)"

lemma yieldsOnly_bind: "(\<And>x. yieldsOnly P (f x)) \<Longrightarrow> yieldsOnly P (bind m f)"
  by (auto simp: yieldsOnly_def bind_def split: prod.splits sum.splits)

lemma yieldsOnlyD: "yieldsOnly P m \<Longrightarrow> fst (m s) = Inr x \<Longrightarrow> P x"
  by (auto simp: yieldsOnly_def)

lemma yieldsOnly_return: "P x \<Longrightarrow> yieldsOnly P (return x)"
  by (simp add: yieldsOnly_def return_def)

lemma yieldsOnly_throw: "yieldsOnly P (throw e)"
  by (simp add: yieldsOnly_def throw_def)

lemma yieldsOnly_tryCatch:
  "yieldsOnly P m \<Longrightarrow> (\<And>e. yieldsOnly P (h e)) \<Longrightarrow> yieldsOnly P (tryCatch m h)"
  by (auto simp: yieldsOnly_def tryCatch_def split: prod.splits sum.splits) (metis fst_conv)+

lemma yieldsOnly_if:
  "(c \<Longrightarrow> yieldsOnly P a) \<Longrightarrow> (\<not> c \<Longrightarrow> yieldsOnly P b) \<Longrightarrow>
   yieldsOnly P (if c then a else b)"
  by simp

lemma yieldsOnly_pair:
  "(\<And>a b. yieldsOnly P (f a b)) \<Longrightarrow> yieldsOnly P (case x of (a, b) \<Rightarrow> f a b)"
  by (cases x) simp

lemma yieldsOnly_option:
  "yieldsOnly P a \<Longrightarrow> (\<And>x. yieldsOnly P (f x)) \<Longrightarrow>
   yieldsOnly P (case v of None \<Rightarrow> a | Some x \<Rightarrow> f x)"
  by (cases v) simp_all

lemmas yieldsOnly_rules =
  yieldsOnly_bind yieldsOnly_throw yieldsOnly_tryCatch yieldsOnly_if yieldsOnly_pair
  yieldsOnly_option

definition errorResponse :: "string \<Rightarrow> js_error \<Rightarrow> SearchResponse" where
  "errorResponse q e =
     \<lparr>query = q,
      results =
        [\<lparr>title = ''Search failed'', link = [],
          snippet = ''Could not complete the search, error message: '' @ message e\<rparr>]\<rparr>"

definition searchOutcome :: "Closure \<Rightarrow> SearchResponse outcome \<Rightarrow> bool" where
  "searchOutcome cl out =
     (out = Rerun \<or> (\<exists>e. out = Return (errorResponse (cl_query cl) e)) \<or>
      (\<exists>doc. out = Return \<lparr>query = cl_query cl,
                            results = extractResults doc (cl_limit cl)\<rparr>))"

lemma so_restart: "yieldsOnly (searchOutcome cl) (restartHeaded b p co ctx pg)"
  unfolding restartHeaded_def
  by (intro yieldsOnly_rules yieldsOnly_return) (simp add: searchOutcome_def)+

lemma so_extract: "yieldsOnly (searchOutcome cl) (extractAndReturn cl b p ctx pg)"
  unfolding extractAndReturn_def
  by (intro yieldsOnly_rules yieldsOnly_return) (auto simp: searchOutcome_def)

lemma so_await: "yieldsOnly (searchOutcome cl) (awaitResults cl h b p co ctx pg)"
  unfolding awaitResults_def by (intro yieldsOnly_rules so_restart so_extract)

lemma so_enter: "yieldsOnly (searchOutcome cl) (enterQuery cl h b p co ctx pg)"
  unfolding enterQuery_def by (intro yieldsOnly_rules so_restart so_await)

lemma so_try: "yieldsOnly (searchOutcome cl) (searchTry cl h b p co ctx pg)"
  unfolding searchTry_def by (intro yieldsOnly_rules so_restart so_enter)

lemma so_catch: "yieldsOnly (searchOutcome cl) (searchCatch cl b p ctx e)"
  unfolding searchCatch_def
  by (intro yieldsOnly_rules yieldsOnly_return) (auto simp: searchOutcome_def errorResponse_def)

lemma so_openPage:
  "(\<And>co ctx pg. yieldsOnly P (rest co ctx pg)) \<Longrightarrow> yieldsOnly P (openPage cl b rest)"
  unfolding openPage_def by (intro yieldsOnly_rules)

lemma so_attempt: "yieldsOnly (searchOutcome cl) (searchAttempt cl h)"
  unfolding searchAttempt_def by (intro yieldsOnly_rules so_openPage so_try so_catch)

definition responseShape :: "string \<Rightarrow> int \<Rightarrow> SearchResponse \<Rightarrow> bool" where
  "responseShape q limit response =
     ((\<exists>e. response = errorResponse q e) \<or>
      (\<exists>doc. response = \<lparr>query = q, results = extractResults doc limit\<rparr>))"

lemma performSearch_shape:
  "yieldsOnly (responseShape (cl_query cl) (cl_limit cl)) (performSearch cl headless)"
  unfolding yieldsOnly_def
proof (intro allI impI)
  fix s response
  show "fst (performSearch cl headless s) = Inr response \<Longrightarrow>
        responseShape (cl_query cl) (cl_limit cl) response"
  proof (induction cl headless s rule: performSearch.induct)
    case (1 cl headless s)
    show ?case
    proof (cases "searchAttempt cl headless s")
      case (Pair r s')
      show ?thesis
      proof (cases r)
        case (Inl e)
        then show ?thesis using Pair "1.prems" by (simp add: performSearch.simps)
      next
        case (Inr out)
        have so: "searchOutcome cl out"
          using yieldsOnlyD [OF so_attempt, of cl headless s out] Pair Inr by simp
        show ?thesis
        proof (cases out)
          case (Return resp)
          then have "response = resp"
            using Pair Inr "1.prems" by (simp add: performSearch.simps)
          then show ?thesis
            using so Return by (auto simp: searchOutcome_def responseShape_def)
        next
          case Rerun
          then have "fst (performSearch cl False s') = Inr response"
            using Pair Inr "1.prems" by (simp add: performSearch.simps [of cl headless])
          then show ?thesis using "1.IH" [of r s' out] Pair Inr Rerun by simp
        qed
      qed
    qed
  qed
qed

lemma googleSearch_shapes:
  assumes "fst (googleSearch env host q options existingBrowser) = Inr response"
  shows "responseShape q (case opt_limit options of None \<Rightarrow> 10 | Some n \<Rightarrow> n) response"
proof -
  have k: "yieldsOnly (responseShape q L)
     (performSearch
        \<lparr>cl_host = host, cl_query = q, cl_limit = L, cl_stateFile = a, cl_noSaveState = b,
         cl_locale = c, cl_storageState = st, cl_fingerprintFile = d,
         cl_existingBrowser = existingBrowser\<rparr> h)" for L a b c d st h
    using performSearch_shape
      [of "\<lparr>cl_host = host, cl_query = q, cl_limit = L, cl_stateFile = a, cl_noSaveState = b,
         cl_locale = c, cl_storageState = st, cl_fingerprintFile = d,
         cl_existingBrowser = existingBrowser\<rparr>" h]
    by simp
  show ?thesis
    using assms unfolding googleSearch_def Let_def
    by (rule yieldsOnlyD [OF yieldsOnly_bind, rotated]) (rule k)
qed

text \<open>
  The links of the results that the extractor takes from a page do start with
  \<^verbatim>\<open>http\<close>, given that the anchors matched by \<^verbatim>\<open>a[href^='http']\<close> have an
  \<^verbatim>\<open>href\<close> that does.
\<close>

definition httpLinks :: "extraction \<Rightarrow> bool" where
  "httpLinks acc = list_all (\<lambda>r. startsWith (link r) ''http'') (fst acc)"

lemma processContainers_httpLinks:
  "httpLinks acc \<Longrightarrow> httpLinks (processContainers maxResults selectors cs acc)"
proof (induction maxResults selectors cs acc rule: processContainers.induct)
  case (1 maxResults selectors found seenUrls)
  then show ?case by simp
next
  case (2 maxResults selectors container rest found seenUrls)
  then show ?case
    by (auto simp: Let_def httpLinks_def split: option.splits)
qed

lemma processSelectorSets_httpLinks:
  "httpLinks acc \<Longrightarrow> httpLinks (processSelectorSets maxResults doc sets acc)"
proof (induction maxResults doc sets acc rule: processSelectorSets.induct)
  case (1 maxResults doc found seenUrls)
  then show ?case by simp
next
  case (2 maxResults doc selectors rest found seenUrls)
  then show ?case
    by (simp add: processContainers_httpLinks)
qed

lemma processAnchors_httpLinks:
  "httpLinks acc \<Longrightarrow> list_all (\<lambda>el. startsWith (ae_href el) ''http'') els \<Longrightarrow>
   httpLinks (processAnchors maxResults els acc)"
proof (induction maxResults els acc rule: processAnchors.induct)
  case (1 maxResults found seenUrls)
  then show ?case by simp
next
  case (2 maxResults el rest found seenUrls)
  then show ?case
    by (auto simp: Let_def httpLinks_def)
qed

lemma extractResults_httpLinks:
  assumes "list_all (\<lambda>el. startsWith (ae_href el) ''http'') (httpAnchors doc)"
  shows "list_all (\<lambda>r. startsWith (link r) ''http'') (extractResults doc maxResults)"
proof -
  have start: "httpLinks ([], {})" by (simp add: httpLinks_def)
  obtain found seenUrls where a:
    "processSelectorSets maxResults doc selectorSets ([], {}) = (found, seenUrls)"
    by (cases "processSelectorSets maxResults doc selectorSets ([], {})") auto
  have ia: "httpLinks (found, seenUrls)"
    using processSelectorSets_httpLinks [OF start, of maxResults doc selectorSets] a by simp
  obtain found' seenUrls' where b:
    "(if int (length found) < maxResults
      then processAnchors maxResults (httpAnchors doc) (found, seenUrls)
      else (found, seenUrls)) = (found', seenUrls')"
    by (cases "(if int (length found) < maxResults
      then processAnchors maxResults (httpAnchors doc) (found, seenUrls)
      else (found, seenUrls))") auto
  have ib: "httpLinks (found', seenUrls')"
    using processAnchors_httpLinks [OF ia assms, of maxResults] ia b
    by (auto split: if_splits)
  have e: "extractResults doc maxResults = slice0 found' maxResults"
    using a b by (simp add: extractResults_def)
  obtain k where "slice0 found' maxResults = take k found'"
    using slice0_prefix by blast
  then show ?thesis
    using e ib by (auto simp: httpLinks_def list_all_iff dest: in_set_takeD)
qed


section \<open>The headless flag and the restart with the caller's browser\<close>

text \<open>
  Claim C2. The first attempt is meant to run headless whatever flag the caller passes
  (the comment above \<^verbatim>\<open>let useHeadless = headless\<close> says so, and
  \<^verbatim>\<open>getGoogleSearchPageHtml\<close> has \<^verbatim>\<open>let useHeadless = true\<close>). With the option
  \<^verbatim>\<open>headless: false\<close> and no caller's browser, the only launch of the sample run is
  headed; with no option it is headless.
\<close>

theorem googleSearch_follows_headless_option:
  "launches (trace (snd (googleSearch allQuiet sampleHost ''x''
                           (noOptions\<lparr>opt_headless := Some False\<rparr>) None))) = [False] \<and>
   launches (trace (snd (googleSearch allQuiet sampleHost ''x'' noOptions None))) =
     [True]"
  by code_simp

text \<open>
  Claim C3. After a verification page the restarted attempt is meant to leave the
  caller's browser alone (\<^verbatim>\<open>no longer using the externally provided one\<close>). In the run
  with the caller's browser and a verification page at the first check, the contexts are
  created on the caller's browser, on the temporary headed browser, which is closed
  unused, and then, in the restarted attempt, on the caller's browser again.
\<close>

theorem restart_reuses_shared_browser:
  "contextBrowsers
     (trace (snd (googleSearch blockedAfterNavigation sampleHost ''x'' noOptions
                    (Some Shared)))) = [Shared, Launched 13, Shared] \<and>
   launches
     (trace (snd (googleSearch blockedAfterNavigation sampleHost ''x'' noOptions
                    (Some Shared)))) = [False] \<and>
   BrowserClose (Launched 13) \<in>
     set (trace (snd (googleSearch blockedAfterNavigation sampleHost ''x'' noOptions
                        (Some Shared))))"
  by code_simp

text \<open>
  On every environment: an attempt of a run that was given a browser opens its page on
  that browser, whatever the value of \<^verbatim>\<open>headless\<close>.
\<close>

lemma searchAttempt_existingBrowser:
  assumes "cl_existingBrowser cl = Some existingBrowser"
  shows "searchAttempt cl headless =
           openPage cl existingBrowser (\<lambda>contextOptions ctx pg.
             tryCatch (searchTry cl headless existingBrowser True contextOptions ctx pg)
               (searchCatch cl existingBrowser True ctx))"
  using assms by (simp add: searchAttempt_def)


end
